theory Spec2Isabelle
  imports Complex_Main "HOL-Library.Multiset"
begin

section \<open>Data model\<close>

text \<open>
  Timestamps are the readings of \<^verbatim>\<open>datetime.utcnow()\<close>, modelled as integers
  (microseconds since the epoch). Strings are ASCII character lists.
\<close>

type_synonym timestamp = int

text \<open>
  Modelled from the spec: the ORM classes \<^verbatim>\<open>User\<close>, \<^verbatim>\<open>Conversation\<close> and
  \<^verbatim>\<open>Message\<close> of \<^verbatim>\<open>app/models/models.py\<close> are not among the sources. The fields
  are those of section 3 of the specification and those the routes read and write.
\<close>

record User =
  usr_id :: int
  username :: string
  email :: string
  hashed_password :: string
  is_active :: bool

record Conversation =
  conv_id :: int
  conv_user_id :: int
  title :: string
  created_at :: timestamp
  updated_at :: timestamp

record Message =
  msg_id :: int
  msg_conversation_id :: int
  role :: string
  content :: string
  msg_created_at :: timestamp

text \<open>
  The database session: the three tables in insertion order, the counters from which
  the primary keys of new rows are drawn, and the engine's answer to
  \<^verbatim>\<open>ORDER BY created_at\<close> on a selection of message rows. The queries of the routes
  name no second sort key, so the order among rows with equal \<^verbatim>\<open>created_at\<close> is the
  engine's: \<open>order_rows\<close> is any function, and \<open>sorts_by_created_at\<close> is what SQL
  promises of it.
\<close>

record database =
  users :: "User list"
  conversations :: "Conversation list"
  messages :: "Message list"
  next_conversation_id :: int
  next_message_id :: int
  order_rows :: "Message list \<Rightarrow> Message list"

definition sorts_by_created_at :: "(Message list \<Rightarrow> Message list) \<Rightarrow> bool" where
  "sorts_by_created_at f \<longleftrightarrow>
     (\<forall>rows. mset (f rows) = mset rows \<and> sorted (map msg_created_at (f rows)))"

text \<open>\<^verbatim>\<open>raise HTTPException(status_code=..., detail=...)\<close>\<close>

datatype HTTPException = HTTPException (status_code: nat) (detail: string)

abbreviation HTTP_404_NOT_FOUND :: nat where "HTTP_404_NOT_FOUND \<equiv> 404"
abbreviation HTTP_500_INTERNAL_SERVER_ERROR :: nat where "HTTP_500_INTERNAL_SERVER_ERROR \<equiv> 500"
abbreviation HTTP_401_UNAUTHORIZED :: nat where "HTTP_401_UNAUTHORIZED \<equiv> 401"
abbreviation HTTP_403_FORBIDDEN :: nat where "HTTP_403_FORBIDDEN \<equiv> 403"

subsection \<open>Request and response schemas of \<^verbatim>\<open>chat_routes.py\<close>\<close>

record ConversationCreate =
  cc_title :: string

record ChatRequest =
  conversation_id :: int
  message :: string

record ChatResponse =
  assistant_message :: string
  message_id :: int


section \<open>Generation client (\<^verbatim>\<open>gen_ai_service.py\<close>)\<close>

record GenerationConfig =
  temperature :: real
  max_output_tokens :: int

text \<open>
  The external backend \<^verbatim>\<open>self.model.generate_content\<close> followed by \<^verbatim>\<open>response.text\<close>:
  a prompt and a configuration give the generated text (\<open>Inr\<close>) or raise an exception
  whose \<^verbatim>\<open>str\<close> is the \<open>Inl\<close> value.
\<close>

type_synonym backend = "string \<Rightarrow> GenerationConfig \<Rightarrow> string + string"

type_synonym msg_dict = "string \<rightharpoonup> string"

definition upper_char :: "char \<Rightarrow> char" where
  "upper_char c = (let n = (of_char c :: nat) in if 97 \<le> n \<and> n \<le> 122 then char_of (n - 32) else c)"

definition lower_char :: "char \<Rightarrow> char" where
  "lower_char c = (let n = (of_char c :: nat) in if 65 \<le> n \<and> n \<le> 90 then char_of (n + 32) else c)"

text \<open>\<^verbatim>\<open>str.capitalize\<close> on ASCII text: first character upper case, the rest lower case.\<close>

fun capitalize :: "string \<Rightarrow> string" where
  "capitalize [] = []"
| "capitalize (c # cs) = upper_char c # map lower_char cs"

text \<open>\<^verbatim>\<open>sep.join(xs)\<close>\<close>

fun join :: "string \<Rightarrow> string list \<Rightarrow> string" where
  "join sep [] = []"
| "join sep [x] = x"
| "join sep (x # y # ys) = x @ sep @ join sep (y # ys)"

text \<open>\<^verbatim>\<open>msg.get(key, default)\<close>\<close>

definition dict_get :: "msg_dict \<Rightarrow> string \<Rightarrow> string \<Rightarrow> string" where
  "dict_get msg k d = (case msg k of None \<Rightarrow> d | Some v \<Rightarrow> v)"

text \<open>The \<^verbatim>\<open>for msg in messages\<close> loop of \<^verbatim>\<open>_format_messages_for_gemini\<close>,
  with the list \<^verbatim>\<open>formatted\<close> as accumulator.\<close>

fun format_loop :: "msg_dict list \<Rightarrow> string list \<Rightarrow> string list" where
  "format_loop [] formatted = formatted"
| "format_loop (msg # rest) formatted =
     (let role = dict_get msg ''role'' ''user'';
          content = dict_get msg ''content'' ''''
      in format_loop rest (formatted @ [capitalize role @ '': '' @ content]))"

definition format_messages_for_gemini :: "msg_dict list \<Rightarrow> string" where
  "format_messages_for_gemini msgs =
     join [CHR 0x0A] (format_loop msgs []) @ [CHR 0x0A] @ ''Assistant:''"

definition default_temperature :: real where
  "default_temperature = 7 / 10"

text \<open>\<^verbatim>\<open>max_tokens or 1024\<close>: \<^verbatim>\<open>None\<close> and \<^verbatim>\<open>0\<close> are both falsy.\<close>

definition max_tokens_or_1024 :: "int option \<Rightarrow> int" where
  "max_tokens_or_1024 max_tokens =
     (case max_tokens of None \<Rightarrow> 1024 | Some n \<Rightarrow> if n = 0 then 1024 else n)"

definition generate_response :: "backend \<Rightarrow> msg_dict list \<Rightarrow> real \<Rightarrow> int option \<Rightarrow> string + string" where
  "generate_response model msgs temp max_tokens =
     (let prompt = format_messages_for_gemini msgs in
      case model prompt \<lparr>temperature = temp, max_output_tokens = max_tokens_or_1024 max_tokens\<rparr> of
        Inr text \<Rightarrow> Inr text
      | Inl e \<Rightarrow> Inl (''Error generating response: '' @ e))"


section \<open>Chat routes (\<^verbatim>\<open>chat_routes.py\<close>)\<close>

text \<open>
  \<^verbatim>\<open>db.query(Conversation).filter(Conversation.id == conversation_id,
  Conversation.user_id == user_id).first()\<close>
\<close>

definition find_conversation :: "database \<Rightarrow> int \<Rightarrow> int \<Rightarrow> Conversation option" where
  "find_conversation db cid uid =
     List.find (\<lambda>c. conv_id c = cid \<and> conv_user_id c = uid) (conversations db)"

text \<open>
  \<^verbatim>\<open>db.query(Message).filter(Message.conversation_id == conversation_id)
  .order_by(Message.created_at).all()\<close>: the rows of the conversation, arranged by the
  engine.
\<close>

definition query_messages :: "database \<Rightarrow> int \<Rightarrow> Message list" where
  "query_messages db cid =
     order_rows db (filter (\<lambda>m. msg_conversation_id m = cid) (messages db))"

text \<open>
  \<^verbatim>\<open>m = Message(conversation_id=..., role=..., content=...); db.add(m); db.commit();
  db.refresh(m)\<close>: the row receives the next primary key and the current time.
\<close>

definition add_message :: "database \<Rightarrow> int \<Rightarrow> string \<Rightarrow> string \<Rightarrow> timestamp \<Rightarrow> database \<times> Message" where
  "add_message db cid r c now =
     (let m = \<lparr>msg_id = next_message_id db, msg_conversation_id = cid, role = r, content = c,
                msg_created_at = now\<rparr>
      in (db\<lparr>messages := messages db @ [m], next_message_id := next_message_id db + 1\<rparr>, m))"

text \<open>\<^verbatim>\<open>conversation.updated_at = datetime.utcnow(); db.commit()\<close>\<close>

definition set_updated_at :: "database \<Rightarrow> Conversation \<Rightarrow> timestamp \<Rightarrow> database" where
  "set_updated_at db conversation now =
     db\<lparr>conversations :=
          map (\<lambda>c. if conv_id c = conv_id conversation then c\<lparr>updated_at := now\<rparr> else c)
            (conversations db)\<rparr>"

text \<open>The three clock readings of one \<^verbatim>\<open>send_message\<close> request, in the order they are taken.\<close>

record request_clock =
  at_user_message :: timestamp
  at_assistant_message :: timestamp
  at_touch :: timestamp

definition history_of :: "Message list \<Rightarrow> msg_dict list" where
  "history_of msgs = map (\<lambda>msg. [''role'' \<mapsto> role msg, ''content'' \<mapsto> content msg]) msgs"

definition send_message ::
  "database \<Rightarrow> backend \<Rightarrow> request_clock \<Rightarrow> int \<Rightarrow> ChatRequest \<Rightarrow> int
     \<Rightarrow> database \<times> (HTTPException + ChatResponse)" where
  "send_message db model clock cid chat_request uid =
     (case find_conversation db cid uid of
        None \<Rightarrow> (db, Inl (HTTPException HTTP_404_NOT_FOUND ''Conversation not found''))
      | Some conversation \<Rightarrow>
          (let (db1, user_message) =
                 add_message db cid ''user'' (message chat_request) (at_user_message clock);
               msgs = query_messages db1 cid;
               message_history = history_of msgs
           in case generate_response model message_history default_temperature None of
                Inl e \<Rightarrow>
                  (db1, Inl (HTTPException HTTP_500_INTERNAL_SERVER_ERROR
                               (''Error generating response: '' @ e)))
              | Inr ai_response \<Rightarrow>
                  (let (db2, assistant_msg) =
                         add_message db1 cid ''assistant'' ai_response (at_assistant_message clock);
                       db3 = set_updated_at db2 conversation (at_touch clock)
                   in (db3, Inr \<lparr>assistant_message = ai_response,
                                 message_id = msg_id assistant_msg\<rparr>))))"


text \<open>
  \<^verbatim>\<open>get_conversation\<close> returns the conversation; the response model adds its messages.
  Modelled from the spec: the relationship \<^verbatim>\<open>Conversation.messages\<close> is declared in
  \<^verbatim>\<open>models.py\<close>, which is not among the sources; the messages are read by creation time
  (section 3 of the specification), with the query \<^verbatim>\<open>send_message\<close> uses.
\<close>

definition get_conversation ::
  "database \<Rightarrow> int \<Rightarrow> int \<Rightarrow> HTTPException + (Conversation \<times> Message list)" where
  "get_conversation db cid uid =
     (case find_conversation db cid uid of
        None \<Rightarrow> Inl (HTTPException HTTP_404_NOT_FOUND ''Conversation not found'')
      | Some conversation \<Rightarrow> Inr (conversation, query_messages db (conv_id conversation)))"

text \<open>
  \<^verbatim>\<open>db.delete(conversation); db.commit()\<close>: one transaction that removes the row with the
  conversation's primary key.
  Modelled from the spec: the cascade of the relationship is declared in \<^verbatim>\<open>models.py\<close>,
  which is not among the sources; by section 3 of the specification deleting a
  conversation deletes all its messages.
\<close>

definition db_delete_conversation :: "database \<Rightarrow> Conversation \<Rightarrow> database" where
  "db_delete_conversation db conversation =
     db\<lparr>conversations := filter (\<lambda>c. conv_id c \<noteq> conv_id conversation) (conversations db),
        messages := filter (\<lambda>m. msg_conversation_id m \<noteq> conv_id conversation) (messages db)\<rparr>"

definition delete_conversation ::
  "database \<Rightarrow> int \<Rightarrow> int \<Rightarrow> database \<times> (HTTPException + string)" where
  "delete_conversation db cid uid =
     (case find_conversation db cid uid of
        None \<Rightarrow> (db, Inl (HTTPException HTTP_404_NOT_FOUND ''Conversation not found''))
      | Some conversation \<Rightarrow>
          (db_delete_conversation db conversation, Inr ''Conversation deleted successfully''))"

text \<open>
  \<^verbatim>\<open>create_conversation\<close>. The new row receives the next primary key; its two timestamps
  are the column defaults of \<^verbatim>\<open>models.py\<close> (modelled from the spec: both are the current
  time).
\<close>

definition create_conversation ::
  "database \<Rightarrow> ConversationCreate \<Rightarrow> int \<Rightarrow> timestamp \<Rightarrow> database \<times> (HTTPException + Conversation)" where
  "create_conversation db data uid now =
     (case List.find (\<lambda>u. usr_id u = uid) (users db) of
        None \<Rightarrow> (db, Inl (HTTPException HTTP_404_NOT_FOUND ''User not found''))
      | Some user \<Rightarrow>
          (let conversation = \<lparr>conv_id = next_conversation_id db, conv_user_id = uid,
                               title = cc_title data, created_at = now, updated_at = now\<rparr>
           in (db\<lparr>conversations := conversations db @ [conversation],
                  next_conversation_id := next_conversation_id db + 1\<rparr>, Inr conversation)))"

text \<open>The orphan check of section 3: every message has its parent conversation.\<close>

definition no_orphans :: "database \<Rightarrow> bool" where
  "no_orphans db =
     list_all (\<lambda>m. list_ex (\<lambda>c. conv_id c = msg_conversation_id m) (conversations db))
       (messages db)"


subsection \<open>Notions used to state the properties of \<^verbatim>\<open>send_message\<close>\<close>

text \<open>
  The two rows a request inserts, the database after the first commit, the prompt sent
  to the backend for a request, and the configuration the route's call passes (the
  defaults of \<^verbatim>\<open>generate_response\<close>).
\<close>

definition user_msg :: "database \<Rightarrow> int \<Rightarrow> string \<Rightarrow> timestamp \<Rightarrow> Message" where
  "user_msg db cid txt now =
     \<lparr>msg_id = next_message_id db, msg_conversation_id = cid, role = ''user'', content = txt,
      msg_created_at = now\<rparr>"

definition assistant_msg :: "database \<Rightarrow> int \<Rightarrow> string \<Rightarrow> timestamp \<Rightarrow> Message" where
  "assistant_msg db cid txt now =
     \<lparr>msg_id = next_message_id db + 1, msg_conversation_id = cid, role = ''assistant'',
      content = txt, msg_created_at = now\<rparr>"

definition with_user_message :: "database \<Rightarrow> int \<Rightarrow> ChatRequest \<Rightarrow> request_clock \<Rightarrow> database" where
  "with_user_message db cid req clock =
     fst (add_message db cid ''user'' (message req) (at_user_message clock))"

definition prompt_for :: "database \<Rightarrow> int \<Rightarrow> ChatRequest \<Rightarrow> request_clock \<Rightarrow> string" where
  "prompt_for db cid req clock =
     format_messages_for_gemini (history_of (query_messages (with_user_message db cid req clock) cid))"

definition default_config :: GenerationConfig where
  "default_config = \<lparr>temperature = default_temperature, max_output_tokens = 1024\<rparr>"


subsection \<open>Sequences of requests\<close>

text \<open>
  \<open>N\<close> sequential \<^verbatim>\<open>send_message\<close> requests on one conversation by one user: each
  request has its own backend behaviour, clock readings and body, and runs on the
  database the previous one left. \<open>expected_rows\<close> lists the rows that successful
  requests insert, \<open>clock_increasing\<close> says that the creation times of the inserted rows
  strictly increase from a lower bound on, and \<open>touched\<close> is the conversation table after
  \<^verbatim>\<open>updated_at\<close> was set.
\<close>

type_synonym call = "backend \<times> request_clock \<times> ChatRequest"

fun send_messages ::
  "database \<Rightarrow> int \<Rightarrow> int \<Rightarrow> call list \<Rightarrow> database \<times> (HTTPException + ChatResponse) list" where
  "send_messages db cid uid [] = (db, [])"
| "send_messages db cid uid ((model, clock, req) # rest) =
     (let (db1, r) = send_message db model clock cid req uid;
          (db2, rs) = send_messages db1 cid uid rest
      in (db2, r # rs))"

fun expected_rows ::
  "int \<Rightarrow> int \<Rightarrow> call list \<Rightarrow> (HTTPException + ChatResponse) list \<Rightarrow> Message list" where
  "expected_rows n cid ((model, clock, req) # calls) (Inr resp # rs) =
     \<lparr>msg_id = n, msg_conversation_id = cid, role = ''user'', content = message req,
      msg_created_at = at_user_message clock\<rparr>
     # \<lparr>msg_id = message_id resp, msg_conversation_id = cid, role = ''assistant'',
        content = assistant_message resp, msg_created_at = at_assistant_message clock\<rparr>
     # expected_rows (n + 2) cid calls rs"
| "expected_rows n cid calls rs = []"

fun clock_increasing :: "timestamp \<Rightarrow> call list \<Rightarrow> bool" where
  "clock_increasing t [] = True"
| "clock_increasing t ((model, clock, req) # rest) =
     (t < at_user_message clock \<and> at_user_message clock < at_assistant_message clock
      \<and> clock_increasing (at_assistant_message clock) rest)"

definition touched :: "int \<Rightarrow> timestamp \<Rightarrow> Conversation list \<Rightarrow> Conversation list" where
  "touched cid t cs = map (\<lambda>x. if conv_id x = cid then x\<lparr>updated_at := t\<rparr> else x) cs"


section \<open>Authentication routes (\<^verbatim>\<open>auth_routes.py\<close>)\<close>

record UserLogin =
  login_email :: string
  password :: string

record TokenResponse =
  access_token :: string
  token_type :: string
  user_id :: int

text \<open>\<^verbatim>\<open>str(n)\<close> for an integer: decimal digits, with a minus sign when negative.\<close>

definition digit_char :: "nat \<Rightarrow> char" where
  "digit_char d = char_of (48 + d)"

function str_nat :: "nat \<Rightarrow> string" where
  "str_nat n = (if n < 10 then [digit_char n] else str_nat (n div 10) @ [digit_char (n mod 10)])"
  by pat_completeness auto
termination
  by (relation "measure (\<lambda>n. n)") auto

definition str_int :: "int \<Rightarrow> string" where
  "str_int i = (if i < 0 then CHR ''-'' # str_nat (nat (- i)) else str_nat (nat i))"

text \<open>
  \<^verbatim>\<open>login\<close>. The helpers \<^verbatim>\<open>verify_password\<close> and \<^verbatim>\<open>create_access_token\<close> belong to
  \<^verbatim>\<open>auth_service.py\<close>, which is not among the sources: they are parameters here.
\<close>

definition login ::
  "(string \<Rightarrow> string \<Rightarrow> bool) \<Rightarrow> ((string \<times> string) list \<Rightarrow> string) \<Rightarrow> database \<Rightarrow> UserLogin
     \<Rightarrow> HTTPException + TokenResponse" where
  "login verify_password create_access_token db user_data =
     (case List.find (\<lambda>u. email u = login_email user_data) (users db) of
        None \<Rightarrow> Inl (HTTPException HTTP_401_UNAUTHORIZED ''Invalid email or password'')
      | Some user \<Rightarrow>
          if \<not> verify_password (password user_data) (hashed_password user)
          then Inl (HTTPException HTTP_401_UNAUTHORIZED ''Invalid email or password'')
          else if \<not> is_active user
          then Inl (HTTPException HTTP_403_FORBIDDEN ''User account is inactive'')
          else Inr \<lparr>access_token = create_access_token [(''sub'', str_int (usr_id user))],
                    token_type = ''bearer'', user_id = usr_id user\<rparr>)"


section \<open>Credential service (\<^verbatim>\<open>auth_service.py\<close>, \<^verbatim>\<open>settings.py\<close>)\<close>

text \<open>\<^verbatim>\<open>ACCESS_TOKEN_EXPIRE_MINUTES: int = 60 * 24\<close> of \<^verbatim>\<open>settings.py\<close>.\<close>

definition ACCESS_TOKEN_EXPIRE_MINUTES :: int where
  "ACCESS_TOKEN_EXPIRE_MINUTES = 60 * 24"

text \<open>
  Modelled from the spec: \<^verbatim>\<open>auth_service.py\<close> is not among the sources. By section 4.1
  of the specification a token is a signed credential that encodes the subject (the user
  id, which the routes pass as \<^verbatim>\<open>{"sub": str(user.id)}\<close>) and an absolute expiry, the
  time of issue plus the lifetime of \<^verbatim>\<open>settings.py\<close>; verification answers \<open>Invalid\<close>
  when the signature does not verify or the payload is malformed, \<open>Expired\<close> when the
  expiry has passed, and otherwise the embedded user id, without reading the database.
  Times are seconds since the epoch. The keyed signature (\<^verbatim>\<open>HS256\<close>) is a parameter: it
  maps the secret and the payload to the signature.
\<close>

datatype AuthError = Invalid | Expired

type_synonym payload = "string option \<times> int option"

type_synonym signer = "string \<Rightarrow> payload \<Rightarrow> string"

record token =
  tok_sub :: "string option"
  tok_exp :: "int option"
  tok_signature :: string

definition create_access_token :: "signer \<Rightarrow> string \<Rightarrow> int \<Rightarrow> (string \<times> string) list \<Rightarrow> token" where
  "create_access_token sign secret now data =
     (let expire = now + ACCESS_TOKEN_EXPIRE_MINUTES * 60;
          to_encode = (map_of data ''sub'', Some expire)
      in \<lparr>tok_sub = fst to_encode, tok_exp = snd to_encode,
          tok_signature = sign secret to_encode\<rparr>)"

definition issue_token :: "signer \<Rightarrow> string \<Rightarrow> int \<Rightarrow> int \<Rightarrow> token" where
  "issue_token sign secret now uid = create_access_token sign secret now [(''sub'', str_int uid)]"

text \<open>\<^verbatim>\<open>int(s)\<close> on a decimal numeral with an optional minus sign; \<open>None\<close> is \<^verbatim>\<open>ValueError\<close>.\<close>

definition digit_of :: "char \<Rightarrow> nat option" where
  "digit_of c = (let n = (of_char c :: nat) in if 48 \<le> n \<and> n \<le> 57 then Some (n - 48) else None)"

fun nat_of_digits :: "nat \<Rightarrow> string \<Rightarrow> nat option" where
  "nat_of_digits acc [] = Some acc"
| "nat_of_digits acc (c # cs) =
     (case digit_of c of None \<Rightarrow> None | Some d \<Rightarrow> nat_of_digits (10 * acc + d) cs)"

definition int_of_str :: "string \<Rightarrow> int option" where
  "int_of_str s =
     (case s of
        [] \<Rightarrow> None
      | c # cs \<Rightarrow>
          if c = CHR ''-''
          then (if cs = [] then None else map_option (\<lambda>n. - int n) (nat_of_digits 0 cs))
          else map_option int (nat_of_digits 0 s))"

definition verify_token :: "signer \<Rightarrow> string \<Rightarrow> int \<Rightarrow> token \<Rightarrow> AuthError + int" where
  "verify_token sign secret now tok =
     (if tok_signature tok \<noteq> sign secret (tok_sub tok, tok_exp tok) then Inl Invalid
      else case (tok_sub tok, tok_exp tok) of
             (Some s, Some expire) \<Rightarrow>
               (case int_of_str s of
                  None \<Rightarrow> Inl Invalid
                | Some uid \<Rightarrow> if expire < now then Inl Expired else Inr uid)
           | _ \<Rightarrow> Inl Invalid)"


section \<open>Example data\<close>

text \<open>
  A small database: an active user, an inactive user and one conversation of the first
  user, on an engine that keeps rows with equal creation times in insertion order. Used
  to run the operations on concrete inputs.
\<close>

definition ex_db :: database where
  "ex_db = \<lparr>users = [\<lparr>usr_id = 1, username = ''ana'', email = ''ana@x.com'',
                        hashed_password = ''h1'', is_active = True\<rparr>,
                      \<lparr>usr_id = 2, username = ''bob'', email = ''bob@x.com'',
                        hashed_password = ''h2'', is_active = False\<rparr>],
            conversations = [\<lparr>conv_id = 1, conv_user_id = 1, title = ''trip'',
                               created_at = 10, updated_at = 10\<rparr>],
            messages = [], next_conversation_id = 2, next_message_id = 1,
            order_rows = sort_key msg_created_at\<rparr>"

definition ex_clock :: request_clock where
  "ex_clock = \<lparr>at_user_message = 20, at_assistant_message = 21, at_touch = 22\<rparr>"


definition ex_calls :: "call list" where
  "ex_calls = [(\<lambda>p c. Inr ''hello'', ex_clock, \<lparr>conversation_id = 1, message = ''hi''\<rparr>),
               (\<lambda>p c. Inr ''fine'',
                \<lparr>at_user_message = 30, at_assistant_message = 31, at_touch = 32\<rparr>,
                \<lparr>conversation_id = 1, message = ''how are you''\<rparr>)]"

text \<open>The same two requests when the wall clock is set back between them.\<close>

definition ex_calls_clock_set_back :: "call list" where
  "ex_calls_clock_set_back =
     [(\<lambda>p c. Inr ''hello'',
       \<lparr>at_user_message = 40, at_assistant_message = 41, at_touch = 42\<rparr>,
       \<lparr>conversation_id = 1, message = ''hi''\<rparr>),
      (\<lambda>p c. Inr ''fine'',
       \<lparr>at_user_message = 30, at_assistant_message = 31, at_touch = 32\<rparr>,
       \<lparr>conversation_id = 1, message = ''how are you''\<rparr>)]"

text \<open>
  The example database with a conversation of the second user that holds one message,
  written between the two requests of \<open>ex_calls\<close>.
\<close>

definition ex_db_two :: database where
  "ex_db_two = ex_db\<lparr>
     conversations := conversations ex_db
        @ [\<lparr>conv_id = 2, conv_user_id = 2, title = ''work'', created_at = 11, updated_at = 25\<rparr>],
     messages :=
       [\<lparr>msg_id = 1, msg_conversation_id = 2, role = ''user'', content = ''plan'',
         msg_created_at = 25\<rparr>],
     next_conversation_id := 3, next_message_id := 2\<rparr>"


text \<open>The example database with a second conversation and three messages.\<close>

definition ex_db_chat :: database where
  "ex_db_chat = ex_db\<lparr>
     conversations := conversations ex_db
        @ [\<lparr>conv_id = 2, conv_user_id = 2, title = ''work'', created_at = 11, updated_at = 11\<rparr>],
     messages :=
       [\<lparr>msg_id = 1, msg_conversation_id = 1, role = ''user'', content = ''hi'',
         msg_created_at = 20\<rparr>,
        \<lparr>msg_id = 2, msg_conversation_id = 2, role = ''user'', content = ''plan'',
         msg_created_at = 20\<rparr>,
        \<lparr>msg_id = 3, msg_conversation_id = 1, role = ''assistant'', content = ''hello'',
         msg_created_at = 21\<rparr>],
     next_conversation_id := 3, next_message_id := 4\<rparr>"

text \<open>
  A password check and a token maker to run \<^verbatim>\<open>login\<close> with: the stored hash of a
  password is the password after the letter h, and a token spells out its claims.
\<close>

definition ex_verify_password :: "string \<Rightarrow> string \<Rightarrow> bool" where
  "ex_verify_password plain hashed = (hashed = CHR ''h'' # plain)"

definition ex_create_access_token :: "(string \<times> string) list \<Rightarrow> string" where
  "ex_create_access_token data = concat (map (\<lambda>(k, v). k @ ''='' @ v) data) @ ''.signed''"

text \<open>A signature that spells out the secret and the payload.\<close>

definition ex_sign :: signer where
  "ex_sign secret p =
     secret @ ''/'' @ (case fst p of None \<Rightarrow> ''-'' | Some s \<Rightarrow> s)
       @ ''/'' @ (case snd p of None \<Rightarrow> ''-'' | Some e \<Rightarrow> str_int e)"

text \<open>A backend that answers only to the configuration of the defaults.\<close>

definition ex_model :: backend where
  "ex_model prompt config =
     (if config = \<lparr>temperature = 7 / 10, max_output_tokens = 1024\<rparr>
      then Inr (''re: '' @ prompt) else Inl ''unexpected configuration'')"

text \<open>A backend that answers with the prompt it was given.\<close>

definition ex_echo :: backend where
  "ex_echo prompt config = Inr prompt"

text \<open>The three clock readings of a request made after those of \<open>ex_db_chat\<close>.\<close>

definition ex_clock_later :: request_clock where
  "ex_clock_later = \<lparr>at_user_message = 40, at_assistant_message = 41, at_touch = 42\<rparr>"


section \<open>Properties\<close>

subsection \<open>Ownership\<close>

lemma find_conversation_None_iff:
  "find_conversation db cid uid = None \<longleftrightarrow>
     (\<forall>c \<in> set (conversations db). conv_id c = cid \<longrightarrow> conv_user_id c \<noteq> uid)"
  by (auto simp: find_conversation_def find_None_iff)

lemma find_conversation_Some:
  "find_conversation db cid uid = Some c \<Longrightarrow>
     c \<in> set (conversations db) \<and> conv_id c = cid \<and> conv_user_id c = uid"
  by (auto simp: find_conversation_def find_Some_iff)

lemma not_owner_not_found:
  assumes "c \<in> set (conversations db)" "conv_id c = cid" "conv_user_id c \<noteq> b"
    and "distinct (map conv_id (conversations db))"
  shows "find_conversation db cid b = None"
proof -
  have "c' = c" if "c' \<in> set (conversations db)" "conv_id c' = cid" for c'
    using that assms(1,2,4) by (metis distinct_map inj_on_def)
  with assms(3) show ?thesis
    by (auto simp: find_conversation_None_iff)
qed

lemma absent_not_found:
  "\<forall>c \<in> set (conversations db). conv_id c \<noteq> cid \<Longrightarrow> find_conversation db cid b = None"
  by (auto simp: find_conversation_None_iff)

lemma not_found_results:
  assumes "find_conversation db cid b = None"
  shows "get_conversation db cid b = Inl (HTTPException 404 ''Conversation not found'')"
    and "send_message db model clock cid req b
           = (db, Inl (HTTPException 404 ''Conversation not found''))"
    and "delete_conversation db cid b
           = (db, Inl (HTTPException 404 ''Conversation not found''))"
  using assms by (simp_all add: get_conversation_def send_message_def delete_conversation_def)

text \<open>
  C3. Let conversation \<open>c\<close> with id \<open>cid\<close> belong to user \<open>a\<close> in \<open>db\<close> (ids being the
  primary key), and let \<open>db0\<close> be any database with no conversation \<open>cid\<close>. For another
  user \<open>b\<close>, reading, appending to and deleting \<open>cid\<close> each raise 404 "Conversation not
  found" and leave the database as it was, and the error is the same value as the one
  raised on \<open>db0\<close>, where the conversation does not exist.
\<close>

theorem ownership_isolation:
  assumes "c \<in> set (conversations db)" and "conv_id c = cid" and "conv_user_id c = a"
    and "a \<noteq> b"
    and "distinct (map conv_id (conversations db))"
    and "\<forall>c' \<in> set (conversations db0). conv_id c' \<noteq> cid"
  shows "get_conversation db cid b = Inl (HTTPException 404 ''Conversation not found'')
       \<and> send_message db model clock cid req b
           = (db, Inl (HTTPException 404 ''Conversation not found''))
       \<and> delete_conversation db cid b
           = (db, Inl (HTTPException 404 ''Conversation not found''))
       \<and> get_conversation db0 cid b = get_conversation db cid b
       \<and> snd (send_message db0 model clock cid req b) = snd (send_message db model clock cid req b)
       \<and> snd (delete_conversation db0 cid b) = snd (delete_conversation db cid b)"
proof -
  have owned: "find_conversation db cid b = None"
    using assms(1-5) not_owner_not_found [of c db cid b] by simp
  have absent: "find_conversation db0 cid b = None"
    using assms(6) by (rule absent_not_found)
  show ?thesis
    by (simp add: not_found_results [OF owned] not_found_results [OF absent])
qed

theorem ownership_isolation_witness:
  "get_conversation ex_db 1 2 = Inl (HTTPException 404 ''Conversation not found'')
   \<and> send_message ex_db (\<lambda>p c. Inr ''hello'') ex_clock 1 \<lparr>conversation_id = 1, message = ''hi''\<rparr> 2
        = (ex_db, Inl (HTTPException 404 ''Conversation not found''))
   \<and> delete_conversation ex_db 1 2 = (ex_db, Inl (HTTPException 404 ''Conversation not found''))
   \<and> get_conversation (ex_db\<lparr>conversations := []\<rparr>) 1 2 = get_conversation ex_db 1 2"
  using ownership_isolation [of
      "\<lparr>conv_id = 1, conv_user_id = 1, title = ''trip'', created_at = 10, updated_at = 10\<rparr>"
      ex_db 1 1 2 "ex_db\<lparr>conversations := []\<rparr>" "\<lambda>p c. Inr ''hello''" ex_clock
      "\<lparr>conversation_id = 1, message = ''hi''\<rparr>"]
  by (simp add: ex_db_def)

subsection \<open>One request\<close>

lemma with_user_message_simps:
  "messages (with_user_message db cid req clock)
     = messages db @ [user_msg db cid (message req) (at_user_message clock)]"
  "conversations (with_user_message db cid req clock) = conversations db"
  "users (with_user_message db cid req clock) = users db"
  "next_message_id (with_user_message db cid req clock) = next_message_id db + 1"
  "next_conversation_id (with_user_message db cid req clock) = next_conversation_id db"
  by (simp_all add: with_user_message_def add_message_def user_msg_def Let_def)

lemma send_message_generation_failed:
  assumes "find_conversation db cid uid = Some c"
    and "model (prompt_for db cid req clock) default_config = Inl cause"
  shows "send_message db model clock cid req uid
           = (with_user_message db cid req clock,
              Inl (HTTPException 500
                (''Error generating response: '' @ ''Error generating response: '' @ cause)))"
  using assms
  by (simp add: send_message_def generate_response_def prompt_for_def default_config_def
      with_user_message_def max_tokens_or_1024_def add_message_def Let_def split: prod.split)

lemma send_message_generated:
  assumes "find_conversation db cid uid = Some c"
    and "model (prompt_for db cid req clock) default_config = Inr text"
  shows "send_message db model clock cid req uid
           = (set_updated_at
                (fst (add_message (with_user_message db cid req clock) cid ''assistant'' text
                        (at_assistant_message clock))) c (at_touch clock),
              Inr \<lparr>assistant_message = text, message_id = next_message_id db + 1\<rparr>)"
  using assms
  by (simp add: send_message_def generate_response_def prompt_for_def default_config_def
      with_user_message_def max_tokens_or_1024_def add_message_def Let_def split: prod.split)

text \<open>
  C1. When the caller owns the conversation and the backend raises on the prompt built
  after the user message was committed, \<^verbatim>\<open>send_message\<close> raises the 500 error that
  wraps the backend's cause, the database holds exactly one new message (the user's, at
  the end of the table), no assistant message is added, and no conversation changes.
\<close>

theorem generation_failure_keeps_user_message:
  assumes "find_conversation db cid uid = Some c"
    and "model (prompt_for db cid req clock) default_config = Inl cause"
  shows "snd (send_message db model clock cid req uid)
           = Inl (HTTPException 500
               (''Error generating response: '' @ ''Error generating response: '' @ cause))
       \<and> messages (fst (send_message db model clock cid req uid))
           = messages db @ [\<lparr>msg_id = next_message_id db, msg_conversation_id = cid,
                              role = ''user'', content = message req,
                              msg_created_at = at_user_message clock\<rparr>]
       \<and> filter (\<lambda>m. role m = ''assistant'') (messages (fst (send_message db model clock cid req uid)))
           = filter (\<lambda>m. role m = ''assistant'') (messages db)
       \<and> conversations (fst (send_message db model clock cid req uid)) = conversations db"
  using assms send_message_generation_failed [of db cid uid c model req clock cause]
  by (simp add: with_user_message_simps user_msg_def)

theorem generation_failure_keeps_user_message_witness:
  "snd (send_message ex_db (\<lambda>p c. Inl ''quota exceeded'') ex_clock 1
          \<lparr>conversation_id = 1, message = ''hi''\<rparr> 1)
     = Inl (HTTPException 500
         ''Error generating response: Error generating response: quota exceeded'')
   \<and> messages (fst (send_message ex_db (\<lambda>p c. Inl ''quota exceeded'') ex_clock 1
          \<lparr>conversation_id = 1, message = ''hi''\<rparr> 1))
     = [\<lparr>msg_id = 1, msg_conversation_id = 1, role = ''user'', content = ''hi'',
         msg_created_at = 20\<rparr>]"
  using generation_failure_keeps_user_message [of ex_db 1 1
      "\<lparr>conv_id = 1, conv_user_id = 1, title = ''trip'', created_at = 10, updated_at = 10\<rparr>"
      "\<lambda>p c. Inl ''quota exceeded''" "\<lparr>conversation_id = 1, message = ''hi''\<rparr>" ex_clock
      "''quota exceeded''"]
  by (simp add: ex_db_def ex_clock_def find_conversation_def)

subsection \<open>The conversation id of the path and of the body\<close>

lemma capitalize_user: "capitalize ''user'' = ''User''"
  by code_simp

lemma capitalize_assistant: "capitalize ''assistant'' = ''Assistant''"
  by code_simp

text \<open>
  C10. \<^verbatim>\<open>send_message\<close> works on the conversation named by the URL path \<open>cid\<close>, whatever
  id \<open>body_id\<close> the request body carries. The ownership check looks up \<open>cid\<close>: when the
  caller owns no conversation \<open>cid\<close> the request raises 404 and changes nothing, also when
  \<open>body_id\<close> names a conversation the caller owns. Otherwise the user row is stored with
  parent \<open>cid\<close>, the backend receives the prompt made of the history of \<open>cid\<close> read after
  that row was stored, and its outcome decides the rest: on failure the 500 error and no
  further change, on success the assistant row with parent \<open>cid\<close>, the new
  \<^verbatim>\<open>updated_at\<close> of conversation \<open>cid\<close>, and the reply with the assistant row's id.
  Two requests that differ only in the body id have the same outcome.
\<close>

theorem send_message_uses_path_conversation_id:
  "(let user_row = \<lparr>msg_id = next_message_id db, msg_conversation_id = cid, role = ''user'',
                     content = said, msg_created_at = at_user_message clock\<rparr>;
        db1 = db\<lparr>messages := messages db @ [user_row],
                 next_message_id := next_message_id db + 1\<rparr>;
        prompt = format_messages_for_gemini (history_of (query_messages db1 cid));
        config = \<lparr>temperature = 7 / 10, max_output_tokens = 1024\<rparr>;
        request = \<lparr>conversation_id = body_id, message = said\<rparr>
    in (find_conversation db cid uid = None
          \<longrightarrow> send_message db model clock cid request uid
                = (db, Inl (HTTPException 404 ''Conversation not found'')))
       \<and> (find_conversation db cid uid = Some c \<and> model prompt config = Inl cause
          \<longrightarrow> send_message db model clock cid request uid
                = (db1, Inl (HTTPException 500
                     (''Error generating response: '' @ ''Error generating response: '' @ cause))))
       \<and> (find_conversation db cid uid = Some c \<and> model prompt config = Inr reply
          \<longrightarrow> send_message db model clock cid request uid
                = (db\<lparr>messages := messages db
                        @ [user_row,
                           \<lparr>msg_id = next_message_id db + 1, msg_conversation_id = cid,
                            role = ''assistant'', content = reply,
                            msg_created_at = at_assistant_message clock\<rparr>],
                      next_message_id := next_message_id db + 2,
                      conversations :=
                        map (\<lambda>x. if conv_id x = cid then x\<lparr>updated_at := at_touch clock\<rparr> else x)
                          (conversations db)\<rparr>,
                   Inr \<lparr>assistant_message = reply, message_id = next_message_id db + 1\<rparr>))
       \<and> send_message db model clock cid request uid
           = send_message db model clock cid \<lparr>conversation_id = other_id, message = said\<rparr> uid)"
proof -
  let ?request = "\<lparr>conversation_id = body_id, message = said\<rparr>"
  have db1: "with_user_message db cid ?request clock
               = db\<lparr>messages := messages db
                       @ [\<lparr>msg_id = next_message_id db, msg_conversation_id = cid,
                           role = ''user'', content = said,
                           msg_created_at = at_user_message clock\<rparr>],
                     next_message_id := next_message_id db + 1\<rparr>"
    by (simp add: with_user_message_def add_message_def Let_def)
  have prompt: "prompt_for db cid ?request clock
                  = format_messages_for_gemini (history_of (query_messages
                      (with_user_message db cid ?request clock) cid))"
    by (simp add: prompt_for_def)
  have config: "default_config = \<lparr>temperature = 7 / 10, max_output_tokens = 1024\<rparr>"
    by (simp add: default_config_def default_temperature_def)
  have absent: "send_message db model clock cid ?request uid
                  = (db, Inl (HTTPException 404 ''Conversation not found''))"
    if "find_conversation db cid uid = None"
    using that by (simp add: send_message_def)
  have failed: "send_message db model clock cid ?request uid
                  = (with_user_message db cid ?request clock,
                     Inl (HTTPException 500
                       (''Error generating response: '' @ ''Error generating response: '' @ cause)))"
    if "find_conversation db cid uid = Some c"
      and "model (prompt_for db cid ?request clock) default_config = Inl cause"
    using that by (rule send_message_generation_failed)
  have generated: "send_message db model clock cid ?request uid
                  = (set_updated_at
                       (fst (add_message (with_user_message db cid ?request clock) cid
                               ''assistant'' reply (at_assistant_message clock))) c (at_touch clock),
                     Inr \<lparr>assistant_message = reply, message_id = next_message_id db + 1\<rparr>)"
    if "find_conversation db cid uid = Some c"
      and "model (prompt_for db cid ?request clock) default_config = Inr reply"
    using that by (rule send_message_generated)
  have after: "set_updated_at
                 (fst (add_message (with_user_message db cid ?request clock) cid
                         ''assistant'' reply (at_assistant_message clock))) c (at_touch clock)
               = db\<lparr>messages := messages db
                        @ [\<lparr>msg_id = next_message_id db, msg_conversation_id = cid,
                            role = ''user'', content = said,
                            msg_created_at = at_user_message clock\<rparr>,
                           \<lparr>msg_id = next_message_id db + 1, msg_conversation_id = cid,
                            role = ''assistant'', content = reply,
                            msg_created_at = at_assistant_message clock\<rparr>],
                      next_message_id := next_message_id db + 2,
                      conversations :=
                        map (\<lambda>x. if conv_id x = cid then x\<lparr>updated_at := at_touch clock\<rparr> else x)
                          (conversations db)\<rparr>"
    if "find_conversation db cid uid = Some c"
    using find_conversation_Some [OF that]
    by (simp add: db1 set_updated_at_def add_message_def Let_def)
  have same: "send_message db model clock cid ?request uid
           = send_message db model clock cid \<lparr>conversation_id = other_id, message = said\<rparr> uid"
    by (simp add: send_message_def cong: option.case_cong)
  show ?thesis
    unfolding Let_def
    using absent failed generated after same
    by (simp add: prompt db1 config)
qed

theorem send_message_uses_path_conversation_id_witness:
  "send_message ex_db_chat ex_echo ex_clock_later 1 \<lparr>conversation_id = 2, message = ''more''\<rparr> 1
     = (ex_db_chat\<lparr>messages := messages ex_db_chat
           @ [\<lparr>msg_id = 4, msg_conversation_id = 1, role = ''user'', content = ''more'',
               msg_created_at = 40\<rparr>,
              \<lparr>msg_id = 5, msg_conversation_id = 1, role = ''assistant'',
               content = ''User: hi'' @ [CHR 0x0A] @ ''Assistant: hello'' @ [CHR 0x0A]
                         @ ''User: more'' @ [CHR 0x0A] @ ''Assistant:'',
               msg_created_at = 41\<rparr>],
          next_message_id := 6,
          conversations :=
            [\<lparr>conv_id = 1, conv_user_id = 1, title = ''trip'', created_at = 10, updated_at = 42\<rparr>,
             \<lparr>conv_id = 2, conv_user_id = 2, title = ''work'', created_at = 11,
               updated_at = 11\<rparr>]\<rparr>,
        Inr \<lparr>assistant_message = ''User: hi'' @ [CHR 0x0A] @ ''Assistant: hello'' @ [CHR 0x0A]
                                 @ ''User: more'' @ [CHR 0x0A] @ ''Assistant:'',
             message_id = 5\<rparr>)
   \<and> send_message ex_db_chat ex_echo ex_clock_later 2 \<lparr>conversation_id = 1, message = ''more''\<rparr> 1
     = (ex_db_chat, Inl (HTTPException 404 ''Conversation not found''))"
proof -
  let ?prompt = "''User: hi'' @ [CHR 0x0A] @ ''Assistant: hello'' @ [CHR 0x0A]
                   @ ''User: more'' @ [CHR 0x0A] @ ''Assistant:''"
  have found: "find_conversation ex_db_chat 1 1
      = Some \<lparr>conv_id = 1, conv_user_id = 1, title = ''trip'', created_at = 10, updated_at = 10\<rparr>"
    by (simp add: find_conversation_def ex_db_chat_def ex_db_def)
  have other: "find_conversation ex_db_chat 2 1 = None"
    by (simp add: find_conversation_def ex_db_chat_def ex_db_def)
  have prompt: "format_messages_for_gemini (history_of (query_messages
        (ex_db_chat\<lparr>messages := messages ex_db_chat
             @ [\<lparr>msg_id = next_message_id ex_db_chat, msg_conversation_id = 1, role = ''user'',
                 content = ''more'', msg_created_at = at_user_message ex_clock_later\<rparr>],
           next_message_id := next_message_id ex_db_chat + 1\<rparr>) 1)) = ?prompt"
    by (simp add: format_messages_for_gemini_def history_of_def query_messages_def
        ex_db_chat_def ex_db_def ex_clock_later_def dict_get_def Let_def
        capitalize_user capitalize_assistant del: capitalize.simps)
  from send_message_uses_path_conversation_id [where db = ex_db_chat and cid = 1 and uid = 1
      and model = ex_echo and clock = ex_clock_later and body_id = 2 and said = "''more''"
      and reply = "?prompt"
      and c = "\<lparr>conv_id = 1, conv_user_id = 1, title = ''trip'', created_at = 10, updated_at = 10\<rparr>"]
    send_message_uses_path_conversation_id [where db = ex_db_chat and cid = 2 and uid = 1
      and model = ex_echo and clock = ex_clock_later and body_id = 1 and said = "''more''"]
    found other
  show ?thesis
    unfolding Let_def prompt
    by (simp add: ex_echo_def ex_db_chat_def ex_db_def ex_clock_later_def)
qed

subsection \<open>Successful requests\<close>

lemma send_message_Inr:
  assumes "send_message db model clock cid req uid = (db1, Inr resp)"
  shows "\<exists>c. find_conversation db cid uid = Some c
           \<and> model (prompt_for db cid req clock) default_config = Inr (assistant_message resp)
           \<and> message_id resp = next_message_id db + 1"
proof (cases "find_conversation db cid uid")
  case None
  with assms show ?thesis by (simp add: send_message_def)
next
  case (Some c)
  show ?thesis
  proof (cases "model (prompt_for db cid req clock) default_config")
    case (Inl cause)
    with Some assms send_message_generation_failed [of db cid uid c model req clock cause]
    show ?thesis by simp
  next
    case (Inr reply)
    with Some assms send_message_generated [of db cid uid c model req clock reply]
    show ?thesis by auto
  qed
qed

lemma send_message_Inr_db:
  assumes "send_message db model clock cid req uid = (db1, Inr resp)"
  shows "messages db1 = messages db @ expected_rows (next_message_id db) cid [(model, clock, req)] [Inr resp]"
    and "next_message_id db1 = next_message_id db + 2"
    and "users db1 = users db"
    and "conversations db1
           = map (\<lambda>x. if conv_id x = cid then x\<lparr>updated_at := at_touch clock\<rparr> else x) (conversations db)"
    and "order_rows db1 = order_rows db"
proof -
  from send_message_Inr [OF assms] obtain c where
    c: "find_conversation db cid uid = Some c"
    and m: "model (prompt_for db cid req clock) default_config = Inr (assistant_message resp)"
    and i: "message_id resp = next_message_id db + 1" by blast
  have cid: "conv_id c = cid" using find_conversation_Some [OF c] by simp
  have db1: "db1 = set_updated_at
                (fst (add_message (with_user_message db cid req clock) cid ''assistant''
                        (assistant_message resp) (at_assistant_message clock))) c (at_touch clock)"
    using assms send_message_generated [of db cid uid c model req clock "assistant_message resp"] c m
    by simp
  show "messages db1 = messages db @ expected_rows (next_message_id db) cid [(model, clock, req)] [Inr resp]"
    by (simp add: db1 set_updated_at_def add_message_def Let_def with_user_message_simps user_msg_def i)
  show "next_message_id db1 = next_message_id db + 2"
    by (simp add: db1 set_updated_at_def add_message_def Let_def with_user_message_simps)
  show "users db1 = users db"
    by (simp add: db1 set_updated_at_def add_message_def Let_def with_user_message_simps)
  show "conversations db1
           = map (\<lambda>x. if conv_id x = cid then x\<lparr>updated_at := at_touch clock\<rparr> else x) (conversations db)"
    by (simp add: db1 set_updated_at_def add_message_def Let_def with_user_message_simps cid)
  show "order_rows db1 = order_rows db"
    by (simp add: db1 set_updated_at_def add_message_def Let_def with_user_message_def)
qed

lemma send_messages_length:
  "send_messages db cid uid calls = (db', rs) \<Longrightarrow> length rs = length calls"
  by (induction calls arbitrary: db db' rs) (auto split: prod.splits)

lemma send_messages_rows:
  assumes "send_messages db cid uid calls = (db', rs)" and "\<forall>r \<in> set rs. \<not> isl r"
  shows "messages db' = messages db @ expected_rows (next_message_id db) cid calls rs
       \<and> users db' = users db \<and> order_rows db' = order_rows db"
  using assms
proof (induction calls arbitrary: db db' rs)
  case Nil
  then show ?case by simp
next
  case (Cons call rest)
  obtain model clock req where call: "call = (model, clock, req)" by (cases call) auto
  obtain db1 r where step: "send_message db model clock cid req uid = (db1, r)" by fastforce
  obtain db2 rs' where tail: "send_messages db1 cid uid rest = (db2, rs')" by fastforce
  from Cons.prems(1) call step tail have res: "db' = db2" "rs = r # rs'" by auto
  from Cons.prems(2) res obtain resp where r: "r = Inr resp" by (cases r) auto
  from Cons.prems(2) res have ok: "\<forall>r \<in> set rs'. \<not> isl r" by simp
  note one = send_message_Inr_db [OF step [unfolded r]]
  from Cons.IH [OF tail ok] show ?case
    by (simp add: res call r one)
qed

lemma expected_rows_length:
  "length rs = length calls \<Longrightarrow> \<forall>r \<in> set rs. \<not> isl r \<Longrightarrow>
     length (expected_rows n cid calls rs) = 2 * length calls"
proof (induction calls arbitrary: rs n)
  case Nil
  then show ?case by simp
next
  case (Cons call rest)
  obtain model clock req where call: "call = (model, clock, req)" by (cases call) auto
  from Cons.prems obtain r rs' where rs: "rs = r # rs'" by (cases rs) auto
  from Cons.prems rs obtain resp where r: "r = Inr resp" by (cases r) auto
  from Cons.prems rs Cons.IH [of rs' "n + 2"] show ?case
    by (simp add: call r)
qed

lemma expected_rows_conversation:
  "m \<in> set (expected_rows n cid calls rs) \<Longrightarrow> msg_conversation_id m = cid"
  by (induction n cid calls rs rule: expected_rows.induct) auto

lemma expected_rows_increasing:
  "clock_increasing t calls \<Longrightarrow>
     sorted_wrt (<) (map msg_created_at (expected_rows n cid calls rs))
     \<and> (\<forall>m \<in> set (expected_rows n cid calls rs). t < msg_created_at m)"
proof (induction n cid calls rs arbitrary: t rule: expected_rows.induct)
  case (1 n cid model clock req calls resp rs)
  from "1.prems" have a: "t < at_user_message clock"
    and b: "at_user_message clock < at_assistant_message clock"
    and c: "clock_increasing (at_assistant_message clock) calls" by simp_all
  from "1.IH" [OF c] a b show ?case by fastforce
qed simp_all

text \<open>A list sorted by a key splits at any bound into the part up to it and the part above.\<close>

lemma sorted_split_at:
  fixes f :: "'a \<Rightarrow> 'b :: linorder"
  shows "sorted (map f zs) \<Longrightarrow>
     zs = filter (\<lambda>z. f z \<le> t) zs @ filter (\<lambda>z. \<not> f z \<le> t) zs"
proof (induction zs)
  case Nil
  then show ?case by simp
next
  case (Cons z zs)
  show ?case
  proof (cases "f z \<le> t")
    case True
    with Cons show ?thesis by simp
  next
    case False
    with Cons.prems have "\<forall>y \<in> set zs. \<not> f y \<le> t" by auto
    then have "filter (\<lambda>z. f z \<le> t) zs = []" "filter (\<lambda>z. \<not> f z \<le> t) zs = zs"
      by (simp_all add: filter_empty_conv filter_id_conv)
    with False show ?thesis by simp
  qed
qed

text \<open>Rows with pairwise different keys have one arrangement that is sorted by the key.\<close>

lemma strictly_sorted_unique:
  fixes f :: "'a \<Rightarrow> 'b :: linorder"
  assumes "sorted (map f zs)" and "mset zs = mset ys" and "sorted_wrt (<) (map f ys)"
  shows "zs = ys"
proof -
  have sy: "sorted (map f ys)" and dy: "distinct (map f ys)"
    using assms(3) by (simp_all add: strict_sorted_iff)
  have m: "mset (map f zs) = mset (map f ys)"
    using assms(2) by simp
  have dz: "distinct (map f zs)"
    using m dy by (metis mset_eq_imp_distinct_iff)
  have st: "set zs = set ys"
    using assms(2) by (rule mset_eq_setD)
  have "set (map f zs) = set (map f ys)"
    using st by simp
  with assms(1) dz sy dy have keys: "map f zs = map f ys"
    by (rule sorted_distinct_set_unique)
  have "inj_on f (set ys)"
    using dy by (simp add: distinct_map)
  with st have "inj_on f (set zs \<union> set ys)" by simp
  from inj_on_map_eq_map [OF this] keys show ?thesis by simp
qed

lemma sorted_after_older_rows:
  fixes f :: "'a \<Rightarrow> 'b :: linorder"
  assumes "sorted (map f zs)" and "mset zs = mset xs + mset ys"
    and "\<forall>x \<in> set xs. f x \<le> t" and "\<forall>y \<in> set ys. t < f y"
    and "sorted_wrt (<) (map f ys)"
  shows "\<exists>old. zs = old @ ys \<and> mset old = mset xs"
proof -
  let ?lo = "filter (\<lambda>z. f z \<le> t) zs" and ?hi = "filter (\<lambda>z. \<not> f z \<le> t) zs"
  have split: "zs = ?lo @ ?hi" by (rule sorted_split_at [OF assms(1)])
  have xs_lo: "filter_mset (\<lambda>z. f z \<le> t) (mset xs) = mset xs"
    and xs_hi: "filter_mset (\<lambda>z. \<not> f z \<le> t) (mset xs) = {#}"
    using assms(3) by (simp_all add: filter_mset_eq_conv)
  have ys_lo: "filter_mset (\<lambda>z. f z \<le> t) (mset ys) = {#}"
    and ys_hi: "filter_mset (\<lambda>z. \<not> f z \<le> t) (mset ys) = mset ys"
    using assms(4) by (auto simp: filter_mset_eq_conv)
  have "mset ?lo = filter_mset (\<lambda>z. f z \<le> t) (mset zs)" by simp
  also have "\<dots> = mset xs" by (simp add: assms(2) xs_lo ys_lo)
  finally have lo: "mset ?lo = mset xs" .
  have "mset ?hi = filter_mset (\<lambda>z. \<not> f z \<le> t) (mset zs)" by simp
  also have "\<dots> = mset ys" by (simp add: assms(2) xs_hi ys_hi)
  finally have hi: "mset ?hi = mset ys" .
  have "sorted (map f ?hi)" using assms(1) by (rule sorted_filter)
  from strictly_sorted_unique [OF this hi assms(5)] have "?hi = ys" .
  with split lo show ?thesis by metis
qed

lemma touched_touched: "touched cid t2 (touched cid t1 cs) = touched cid t2 cs"
  by (induction cs) (simp_all add: touched_def)

lemma send_messages_conversations:
  assumes "send_messages db cid uid calls = (db', rs)" and "\<forall>r \<in> set rs. \<not> isl r"
  shows "conversations db'
           = (if calls = [] then conversations db
              else touched cid (at_touch (fst (snd (last calls)))) (conversations db))"
  using assms
proof (induction calls arbitrary: db db' rs)
  case Nil
  then show ?case by simp
next
  case (Cons call rest)
  obtain model clock req where call: "call = (model, clock, req)" by (cases call) auto
  obtain db1 r where step: "send_message db model clock cid req uid = (db1, r)" by fastforce
  obtain db2 rs' where tail: "send_messages db1 cid uid rest = (db2, rs')" by fastforce
  from Cons.prems(1) call step tail have res: "db' = db2" "rs = r # rs'" by auto
  from Cons.prems(2) res obtain resp where r: "r = Inr resp" by (cases r) auto
  from Cons.prems(2) res have ok: "\<forall>r \<in> set rs'. \<not> isl r" by simp
  have one: "conversations db1 = touched cid (at_touch clock) (conversations db)"
    using send_message_Inr_db(4) [OF step [unfolded r]] by (simp add: touched_def)
  from Cons.IH [OF tail ok] show ?case
    by (simp add: res call one touched_touched)
qed

text \<open>
  What the history query returns after \<open>N\<close> successful requests, on an engine that sorts
  by creation time.
\<close>

lemma query_messages_after_calls:
  assumes run: "send_messages db cid uid calls = (db', rs)" and ok: "\<forall>r \<in> set rs. \<not> isl r"
    and eng: "sorts_by_created_at (order_rows db)"
  shows "mset (query_messages db' cid)
           = mset (query_messages db cid) + mset (expected_rows (next_message_id db) cid calls rs)"
    and "sorted (map msg_created_at (query_messages db' cid))"
proof -
  let ?new = "expected_rows (next_message_id db) cid calls rs"
  have rows: "messages db' = messages db @ ?new" and o: "order_rows db' = order_rows db"
    using send_messages_rows [OF run ok] by simp_all
  have keep: "filter (\<lambda>m. msg_conversation_id m = cid) ?new = ?new"
    by (simp add: expected_rows_conversation)
  from eng show "mset (query_messages db' cid) = mset (query_messages db cid) + mset ?new"
    by (simp add: sorts_by_created_at_def query_messages_def rows o keep)
  from eng show "sorted (map msg_created_at (query_messages db' cid))"
    by (simp add: sorts_by_created_at_def query_messages_def o)
qed

text \<open>
  C2, as stated, fails: the history is ordered by \<^verbatim>\<open>created_at\<close>, a reading of the wall
  clock. When the clock is set back between two requests that both succeed, the second
  request's pair comes first in the ordered history, even on an engine that keeps equal
  creation times in insertion order.
\<close>

theorem call_order_clock_set_back_counterexample:
  "snd (send_messages ex_db 1 1 ex_calls_clock_set_back)
     = [Inr \<lparr>assistant_message = ''hello'', message_id = 2\<rparr>,
        Inr \<lparr>assistant_message = ''fine'', message_id = 4\<rparr>]
   \<and> map content (messages (fst (send_messages ex_db 1 1 ex_calls_clock_set_back)))
     = [''hi'', ''hello'', ''how are you'', ''fine'']
   \<and> map content (query_messages (fst (send_messages ex_db 1 1 ex_calls_clock_set_back)) 1)
     = [''how are you'', ''fine'', ''hi'', ''hello'']"
  by (simp add: ex_calls_clock_set_back_def ex_db_def send_message_def find_conversation_def
      add_message_def generate_response_def set_updated_at_def query_messages_def Let_def)

text \<open>
  C2, amended. Let \<open>N\<close> sequential requests on conversation \<open>cid\<close> all succeed. Then the
  message table is the old table followed by exactly \<open>2 * N\<close> new rows of conversation
  \<open>cid\<close>, for each request in call order its user row (the caller's text) and then its
  assistant row (the text and the id the response carries); the conversation table
  differs at most in \<^verbatim>\<open>updated_at\<close> of conversation \<open>cid\<close>, set to the last request's
  reading; users are unchanged. On an engine that sorts by creation time, the history
  read by \<^verbatim>\<open>query_messages\<close> holds the rows of the old history and the new rows, so
  \<open>2 * N\<close> more than before. It is in call order when the creation times strictly
  increase from row to row and are later than those of the conversation's older
  messages: the history is then the older rows followed by the new rows, and for a
  conversation that had no message it is exactly the \<open>2 * N\<close> new rows. A request on an
  owned conversation whose backend returns \<open>reply\<close> answers with \<open>reply\<close> and the id of
  the assistant row.
\<close>

theorem successful_calls_append_pairs:
  assumes "send_messages db cid uid calls = (db', rs)" and "\<forall>r \<in> set rs. \<not> isl r"
  shows "messages db' = messages db @ expected_rows (next_message_id db) cid calls rs
       \<and> length (expected_rows (next_message_id db) cid calls rs) = 2 * length calls
       \<and> (\<forall>m \<in> set (expected_rows (next_message_id db) cid calls rs). msg_conversation_id m = cid)
       \<and> conversations db'
           = (if calls = [] then conversations db
              else touched cid (at_touch (fst (snd (last calls)))) (conversations db))
       \<and> users db' = users db
       \<and> (sorts_by_created_at (order_rows db)
          \<longrightarrow> mset (query_messages db' cid)
                = mset (query_messages db cid)
                  + mset (expected_rows (next_message_id db) cid calls rs)
              \<and> length (query_messages db' cid)
                = length (query_messages db cid) + 2 * length calls)
       \<and> (sorts_by_created_at (order_rows db) \<and> clock_increasing t0 calls
            \<and> (\<forall>m \<in> set (messages db). msg_conversation_id m = cid \<longrightarrow> msg_created_at m \<le> t0)
          \<longrightarrow> (\<exists>old. query_messages db' cid
                        = old @ expected_rows (next_message_id db) cid calls rs
                      \<and> mset old = mset (query_messages db cid)))
       \<and> (sorts_by_created_at (order_rows db) \<and> clock_increasing t0 calls
            \<and> (\<forall>m \<in> set (messages db). msg_conversation_id m \<noteq> cid)
          \<longrightarrow> query_messages db' cid = expected_rows (next_message_id db) cid calls rs)
       \<and> (find_conversation db cid uid = Some c
            \<and> model (prompt_for db cid req clock) default_config = Inr reply
          \<longrightarrow> snd (send_message db model clock cid req uid)
                = Inr \<lparr>assistant_message = reply, message_id = next_message_id db + 1\<rparr>)"
proof -
  let ?new = "expected_rows (next_message_id db) cid calls rs"
  let ?old = "filter (\<lambda>m. msg_conversation_id m = cid) (messages db)"
  have len: "length rs = length calls" by (rule send_messages_length [OF assms(1)])
  have rows: "messages db' = messages db @ ?new" and usr: "users db' = users db"
    using send_messages_rows [OF assms] by simp_all
  have n: "length ?new = 2 * length calls"
    by (rule expected_rows_length [OF len assms(2)])
  have conv: "\<forall>m \<in> set ?new. msg_conversation_id m = cid"
    by (simp add: expected_rows_conversation)
  have bag: "mset (query_messages db' cid) = mset (query_messages db cid) + mset ?new
              \<and> length (query_messages db' cid) = length (query_messages db cid) + 2 * length calls"
    if eng: "sorts_by_created_at (order_rows db)"
  proof -
    have m: "mset (query_messages db' cid) = mset (query_messages db cid) + mset ?new"
      by (rule query_messages_after_calls(1) [OF assms eng])
    from m have "size (mset (query_messages db' cid))
                   = size (mset (query_messages db cid) + mset ?new)" by simp
    with n have "length (query_messages db' cid) = length (query_messages db cid) + 2 * length calls"
      by simp
    with m show ?thesis by simp
  qed
  have q: "\<exists>old. query_messages db' cid = old @ ?new \<and> mset old = mset (query_messages db cid)"
    if eng: "sorts_by_created_at (order_rows db)" and inc: "clock_increasing t0 calls"
      and old: "\<forall>m \<in> set (messages db). msg_conversation_id m = cid \<longrightarrow> msg_created_at m \<le> t0"
  proof -
    have srt: "sorted_wrt (<) (map msg_created_at ?new)"
      and late: "\<forall>m \<in> set ?new. t0 < msg_created_at m"
      using expected_rows_increasing [OF inc] by simp_all
    have early: "\<forall>m \<in> set (query_messages db cid). msg_created_at m \<le> t0"
    proof -
      have "set (query_messages db cid) = set ?old"
        using eng by (metis sorts_by_created_at_def query_messages_def mset_eq_setD)
      with old show ?thesis by simp
    qed
    from sorted_after_older_rows [OF query_messages_after_calls(2) [OF assms eng]
        query_messages_after_calls(1) [OF assms eng] early late srt]
    show ?thesis .
  qed
  have fresh: "query_messages db' cid = ?new"
    if eng: "sorts_by_created_at (order_rows db)" and inc: "clock_increasing t0 calls"
      and none: "\<forall>m \<in> set (messages db). msg_conversation_id m \<noteq> cid"
  proof -
    from none have e: "?old = []" by (simp add: filter_empty_conv)
    have "mset (query_messages db cid) = mset ?old"
      using eng by (simp add: sorts_by_created_at_def query_messages_def)
    with e have empty: "query_messages db cid = []" by simp
    from none have "\<forall>m \<in> set (messages db). msg_conversation_id m = cid \<longrightarrow> msg_created_at m \<le> t0"
      by simp
    from q [OF eng inc this] empty show ?thesis by auto
  qed
  have one: "snd (send_message db model clock cid req uid)
                = Inr \<lparr>assistant_message = reply, message_id = next_message_id db + 1\<rparr>"
    if "find_conversation db cid uid = Some c"
      and "model (prompt_for db cid req clock) default_config = Inr reply"
    using that send_message_generated [of db cid uid c model req clock reply] by simp
  show ?thesis
    using rows usr n conv bag q fresh one send_messages_conversations [OF assms]
    by blast
qed

lemma sorts_by_created_at_sort_key: "sorts_by_created_at (sort_key msg_created_at)"
  by (simp add: sorts_by_created_at_def)

lemma ex_run:
  "send_messages ex_db_two 1 1 ex_calls
     = (ex_db_two\<lparr>messages :=
          [\<lparr>msg_id = 1, msg_conversation_id = 2, role = ''user'', content = ''plan'',
            msg_created_at = 25\<rparr>,
           \<lparr>msg_id = 2, msg_conversation_id = 1, role = ''user'', content = ''hi'',
            msg_created_at = 20\<rparr>,
           \<lparr>msg_id = 3, msg_conversation_id = 1, role = ''assistant'', content = ''hello'',
            msg_created_at = 21\<rparr>,
           \<lparr>msg_id = 4, msg_conversation_id = 1, role = ''user'', content = ''how are you'',
            msg_created_at = 30\<rparr>,
           \<lparr>msg_id = 5, msg_conversation_id = 1, role = ''assistant'', content = ''fine'',
            msg_created_at = 31\<rparr>],
          next_message_id := 6,
          conversations :=
            [\<lparr>conv_id = 1, conv_user_id = 1, title = ''trip'', created_at = 10, updated_at = 32\<rparr>,
             \<lparr>conv_id = 2, conv_user_id = 2, title = ''work'', created_at = 11,
               updated_at = 25\<rparr>]\<rparr>,
        [Inr \<lparr>assistant_message = ''hello'', message_id = 3\<rparr>,
         Inr \<lparr>assistant_message = ''fine'', message_id = 5\<rparr>])"
  by (simp add: ex_calls_def ex_db_two_def ex_db_def ex_clock_def send_message_def
      find_conversation_def add_message_def generate_response_def set_updated_at_def Let_def)

theorem successful_calls_append_pairs_witness:
  "messages (fst (send_messages ex_db_two 1 1 ex_calls))
     = messages ex_db_two
       @ [\<lparr>msg_id = 2, msg_conversation_id = 1, role = ''user'', content = ''hi'',
            msg_created_at = 20\<rparr>,
          \<lparr>msg_id = 3, msg_conversation_id = 1, role = ''assistant'', content = ''hello'',
            msg_created_at = 21\<rparr>,
          \<lparr>msg_id = 4, msg_conversation_id = 1, role = ''user'', content = ''how are you'',
            msg_created_at = 30\<rparr>,
          \<lparr>msg_id = 5, msg_conversation_id = 1, role = ''assistant'', content = ''fine'',
            msg_created_at = 31\<rparr>]
   \<and> length (query_messages (fst (send_messages ex_db_two 1 1 ex_calls)) 1) = 4
   \<and> query_messages (fst (send_messages ex_db_two 1 1 ex_calls)) 1
     = [\<lparr>msg_id = 2, msg_conversation_id = 1, role = ''user'', content = ''hi'',
          msg_created_at = 20\<rparr>,
        \<lparr>msg_id = 3, msg_conversation_id = 1, role = ''assistant'', content = ''hello'',
          msg_created_at = 21\<rparr>,
        \<lparr>msg_id = 4, msg_conversation_id = 1, role = ''user'', content = ''how are you'',
          msg_created_at = 30\<rparr>,
        \<lparr>msg_id = 5, msg_conversation_id = 1, role = ''assistant'', content = ''fine'',
          msg_created_at = 31\<rparr>]"
proof -
  have run: "send_messages ex_db_two 1 1 ex_calls
               = (fst (send_messages ex_db_two 1 1 ex_calls), snd (send_messages ex_db_two 1 1 ex_calls))"
    by simp
  have ok: "\<forall>r \<in> set (snd (send_messages ex_db_two 1 1 ex_calls)). \<not> isl r"
    by (simp add: ex_run)
  have eng: "sorts_by_created_at (order_rows ex_db_two)"
    by (simp add: ex_db_two_def ex_db_def sorts_by_created_at_sort_key)
  have inc: "clock_increasing 19 ex_calls"
    by (simp add: ex_calls_def ex_clock_def)
  have none: "\<forall>m \<in> set (messages ex_db_two). msg_conversation_id m \<noteq> 1"
    by (simp add: ex_db_two_def ex_db_def)
  have n: "next_message_id ex_db_two = 2"
    by (simp add: ex_db_two_def ex_db_def)
  have new: "expected_rows 2 1 ex_calls (snd (send_messages ex_db_two 1 1 ex_calls))
       = [\<lparr>msg_id = 2, msg_conversation_id = 1, role = ''user'', content = ''hi'',
            msg_created_at = 20\<rparr>,
          \<lparr>msg_id = 3, msg_conversation_id = 1, role = ''assistant'', content = ''hello'',
            msg_created_at = 21\<rparr>,
          \<lparr>msg_id = 4, msg_conversation_id = 1, role = ''user'', content = ''how are you'',
            msg_created_at = 30\<rparr>,
          \<lparr>msg_id = 5, msg_conversation_id = 1, role = ''assistant'', content = ''fine'',
            msg_created_at = 31\<rparr>]"
    unfolding ex_run snd_conv by (simp add: ex_calls_def ex_clock_def)
  have l: "length ex_calls = 2"
    by (simp add: ex_calls_def)
  from successful_calls_append_pairs [OF run ok, of 19] eng inc none
  show ?thesis
    unfolding n new by (simp add: l)
qed

subsection \<open>Deleting a conversation\<close>

lemma no_orphans_iff:
  "no_orphans db \<longleftrightarrow>
     (\<forall>m \<in> set (messages db). \<exists>c \<in> set (conversations db). conv_id c = msg_conversation_id m)"
  by (simp add: no_orphans_def list_all_iff list_ex_iff)

lemma db_delete_conversation_no_orphans:
  "no_orphans db \<Longrightarrow> no_orphans (db_delete_conversation db c)"
  by (fastforce simp: no_orphans_iff db_delete_conversation_def)

text \<open>
  C6. When the caller owns conversation \<open>cid\<close>, \<^verbatim>\<open>delete_conversation\<close> answers with the
  confirmation and returns one new database in which no conversation has id \<open>cid\<close> and
  no message has parent \<open>cid\<close>, every other row being kept; a database without orphan
  messages stays without orphans, and the owner's \<^verbatim>\<open>get_conversation\<close> then raises 404.
  When the conversation is not found the database is returned as it was: there is no
  result in which only part of the rows are gone.
\<close>

theorem delete_conversation_cascades:
  assumes "no_orphans db" and "find_conversation db cid uid = Some c"
  shows "snd (delete_conversation db cid uid) = Inr ''Conversation deleted successfully''
       \<and> (\<forall>x \<in> set (conversations (fst (delete_conversation db cid uid))). conv_id x \<noteq> cid)
       \<and> (\<forall>m \<in> set (messages (fst (delete_conversation db cid uid))). msg_conversation_id m \<noteq> cid)
       \<and> conversations (fst (delete_conversation db cid uid))
           = filter (\<lambda>x. conv_id x \<noteq> cid) (conversations db)
       \<and> messages (fst (delete_conversation db cid uid))
           = filter (\<lambda>m. msg_conversation_id m \<noteq> cid) (messages db)
       \<and> no_orphans (fst (delete_conversation db cid uid))
       \<and> get_conversation (fst (delete_conversation db cid uid)) cid uid
           = Inl (HTTPException 404 ''Conversation not found'')
       \<and> (find_conversation db cid' uid' = None \<longrightarrow> delete_conversation db cid' uid'
           = (db, Inl (HTTPException 404 ''Conversation not found'')))"
proof -
  have cid: "conv_id c = cid" using find_conversation_Some [OF assms(2)] by simp
  have del: "delete_conversation db cid uid
               = (db_delete_conversation db c, Inr ''Conversation deleted successfully'')"
    using assms(2) by (simp add: delete_conversation_def)
  have gone: "find_conversation (db_delete_conversation db c) cid uid = None"
    by (simp add: find_conversation_None_iff db_delete_conversation_def cid)
  have absent: "find_conversation db cid' uid' = None \<longrightarrow> delete_conversation db cid' uid'
           = (db, Inl (HTTPException 404 ''Conversation not found''))"
    by (simp add: delete_conversation_def)
  have orph: "no_orphans (fst (delete_conversation db cid uid))"
    using db_delete_conversation_no_orphans [OF assms(1), of c] by (simp add: del)
  have get: "get_conversation (fst (delete_conversation db cid uid)) cid uid
           = Inl (HTTPException 404 ''Conversation not found'')"
    using not_found_results(1) [OF gone] by (simp add: del)
  have rows: "conversations (fst (delete_conversation db cid uid))
           = filter (\<lambda>x. conv_id x \<noteq> cid) (conversations db)"
    "messages (fst (delete_conversation db cid uid))
           = filter (\<lambda>m. msg_conversation_id m \<noteq> cid) (messages db)"
    by (simp_all add: del db_delete_conversation_def cid)
  have res: "snd (delete_conversation db cid uid) = Inr ''Conversation deleted successfully''"
    by (simp add: del)
  show ?thesis
    using absent orph get res by (simp add: rows)
qed

theorem delete_conversation_cascades_witness:
  "snd (delete_conversation ex_db_chat 1 1) = Inr ''Conversation deleted successfully''
   \<and> messages (fst (delete_conversation ex_db_chat 1 1))
     = [\<lparr>msg_id = 2, msg_conversation_id = 2, role = ''user'', content = ''plan'',
         msg_created_at = 20\<rparr>]
   \<and> conversations (fst (delete_conversation ex_db_chat 1 1))
     = [\<lparr>conv_id = 2, conv_user_id = 2, title = ''work'', created_at = 11, updated_at = 11\<rparr>]
   \<and> no_orphans (fst (delete_conversation ex_db_chat 1 1))
   \<and> get_conversation (fst (delete_conversation ex_db_chat 1 1)) 1 1
     = Inl (HTTPException 404 ''Conversation not found'')"
proof -
  have orph: "no_orphans ex_db_chat"
    by (simp add: no_orphans_def ex_db_chat_def ex_db_def)
  have found: "find_conversation ex_db_chat 1 1
      = Some \<lparr>conv_id = 1, conv_user_id = 1, title = ''trip'', created_at = 10, updated_at = 10\<rparr>"
    by (simp add: find_conversation_def ex_db_chat_def ex_db_def)
  from delete_conversation_cascades [OF orph found] show ?thesis
    by (simp add: ex_db_chat_def ex_db_def)
qed

subsection \<open>Creating a conversation\<close>

text \<open>
  C7, as stated, fails: user 2 of the example database exists with the active flag false,
  and \<^verbatim>\<open>create_conversation\<close> for that user succeeds and stores a conversation.
\<close>

theorem create_conversation_inactive_user_counterexample:
  "List.find (\<lambda>u. usr_id u = 2) (users ex_db)
     = Some \<lparr>usr_id = 2, username = ''bob'', email = ''bob@x.com'', hashed_password = ''h2'',
             is_active = False\<rparr>
   \<and> create_conversation ex_db \<lparr>cc_title = ''plan''\<rparr> 2 50
     = (ex_db\<lparr>conversations := conversations ex_db
                 @ [\<lparr>conv_id = 2, conv_user_id = 2, title = ''plan'', created_at = 50,
                     updated_at = 50\<rparr>],
               next_conversation_id := 3\<rparr>,
        Inr \<lparr>conv_id = 2, conv_user_id = 2, title = ''plan'', created_at = 50, updated_at = 50\<rparr>)"
  by (simp add: create_conversation_def ex_db_def Let_def)

text \<open>
  C7, amended. \<^verbatim>\<open>create_conversation\<close> looks the user up by id only. When no user has
  the id it raises 404 "User not found" and leaves the database as it was; when a user
  has the id, whatever the active flag, it appends and returns a conversation with the
  next id, the given title and both timestamps equal to the current time.
\<close>

theorem create_conversation_checks_existence:
  "((\<forall>u \<in> set (users db). usr_id u \<noteq> uid)
      \<longrightarrow> create_conversation db data uid now
            = (db, Inl (HTTPException 404 ''User not found'')))
   \<and> ((\<exists>u \<in> set (users db). usr_id u = uid)
      \<longrightarrow> create_conversation db data uid now
            = (db\<lparr>conversations := conversations db
                      @ [\<lparr>conv_id = next_conversation_id db, conv_user_id = uid,
                          title = cc_title data, created_at = now, updated_at = now\<rparr>],
                    next_conversation_id := next_conversation_id db + 1\<rparr>,
               Inr \<lparr>conv_id = next_conversation_id db, conv_user_id = uid,
                    title = cc_title data, created_at = now, updated_at = now\<rparr>))"
proof (intro conjI impI)
  assume "\<forall>u \<in> set (users db). usr_id u \<noteq> uid"
  then have "List.find (\<lambda>u. usr_id u = uid) (users db) = None"
    by (simp add: find_None_iff)
  then show "create_conversation db data uid now
               = (db, Inl (HTTPException 404 ''User not found''))"
    by (simp add: create_conversation_def)
next
  assume "\<exists>u \<in> set (users db). usr_id u = uid"
  then have "List.find (\<lambda>u. usr_id u = uid) (users db) \<noteq> None"
    by (auto simp: find_None_iff)
  then obtain u where "List.find (\<lambda>u. usr_id u = uid) (users db) = Some u" by blast
  then show "create_conversation db data uid now
            = (db\<lparr>conversations := conversations db
                      @ [\<lparr>conv_id = next_conversation_id db, conv_user_id = uid,
                          title = cc_title data, created_at = now, updated_at = now\<rparr>],
                    next_conversation_id := next_conversation_id db + 1\<rparr>,
               Inr \<lparr>conv_id = next_conversation_id db, conv_user_id = uid,
                    title = cc_title data, created_at = now, updated_at = now\<rparr>)"
    by (simp add: create_conversation_def Let_def)
qed

theorem create_conversation_checks_existence_witness:
  "create_conversation ex_db \<lparr>cc_title = ''plan''\<rparr> 9 50
     = (ex_db, Inl (HTTPException 404 ''User not found''))
   \<and> snd (create_conversation ex_db \<lparr>cc_title = ''plan''\<rparr> 1 50)
     = Inr \<lparr>conv_id = 2, conv_user_id = 1, title = ''plan'', created_at = 50, updated_at = 50\<rparr>"
  using create_conversation_checks_existence [of ex_db 9 "\<lparr>cc_title = ''plan''\<rparr>" 50]
    create_conversation_checks_existence [of ex_db 1 "\<lparr>cc_title = ''plan''\<rparr>" 50]
  by (simp add: ex_db_def)

subsection \<open>Logging in\<close>

lemma str_int_1: "str_int 1 = ''1''"
  by code_simp

text \<open>
  C9, as stated, fails: user 2 of the example database is inactive, and a login with that
  user's email and the right password is refused with status 403 and the detail
  "User account is inactive", which is neither a success nor the 401 answer given to
  wrong credentials.
\<close>

theorem login_inactive_account_counterexample:
  "login ex_verify_password ex_create_access_token ex_db
     \<lparr>login_email = ''bob@x.com'', password = ''2''\<rparr>
     = Inl (HTTPException 403 ''User account is inactive'')
   \<and> login ex_verify_password ex_create_access_token ex_db
     \<lparr>login_email = ''bob@x.com'', password = ''wrong''\<rparr>
     = Inl (HTTPException 401 ''Invalid email or password'')"
  by (simp add: login_def ex_db_def ex_verify_password_def)

text \<open>
  C9, amended. \<^verbatim>\<open>login\<close> has two failure kinds. With no user under the email, or with a
  password that does not verify against the stored hash, it raises 401
  "Invalid email or password"; with the right password for an inactive account it raises
  403 "User account is inactive"; with the right password for an active account it returns
  the token made for the user's id, the token type "bearer" and the user's id. Every
  failure of \<^verbatim>\<open>login\<close> is one of these two.
\<close>

theorem login_failure_kinds:
  "(List.find (\<lambda>u. email u = login_email user_data) (users db) = None
      \<longrightarrow> login vp cat db user_data = Inl (HTTPException 401 ''Invalid email or password''))
   \<and> (List.find (\<lambda>u. email u = login_email user_data) (users db) = Some u
        \<and> \<not> vp (password user_data) (hashed_password u)
      \<longrightarrow> login vp cat db user_data = Inl (HTTPException 401 ''Invalid email or password''))
   \<and> (List.find (\<lambda>u. email u = login_email user_data) (users db) = Some u
        \<and> vp (password user_data) (hashed_password u) \<and> \<not> is_active u
      \<longrightarrow> login vp cat db user_data = Inl (HTTPException 403 ''User account is inactive''))
   \<and> (List.find (\<lambda>u. email u = login_email user_data) (users db) = Some u
        \<and> vp (password user_data) (hashed_password u) \<and> is_active u
      \<longrightarrow> login vp cat db user_data
            = Inr \<lparr>access_token = cat [(''sub'', str_int (usr_id u))], token_type = ''bearer'',
                   user_id = usr_id u\<rparr>)
   \<and> (isl (login vp cat db user_data)
      \<longrightarrow> projl (login vp cat db user_data)
            \<in> {HTTPException 401 ''Invalid email or password'',
               HTTPException 403 ''User account is inactive''})"
  by (auto simp: login_def split: option.splits)

theorem login_failure_kinds_witness:
  "login ex_verify_password ex_create_access_token ex_db
     \<lparr>login_email = ''eve@x.com'', password = ''1''\<rparr>
     = Inl (HTTPException 401 ''Invalid email or password'')
   \<and> login ex_verify_password ex_create_access_token ex_db
     \<lparr>login_email = ''ana@x.com'', password = ''wrong''\<rparr>
     = Inl (HTTPException 401 ''Invalid email or password'')
   \<and> login ex_verify_password ex_create_access_token ex_db
     \<lparr>login_email = ''bob@x.com'', password = ''2''\<rparr>
     = Inl (HTTPException 403 ''User account is inactive'')
   \<and> login ex_verify_password ex_create_access_token ex_db
     \<lparr>login_email = ''ana@x.com'', password = ''1''\<rparr>
     = Inr \<lparr>access_token = ''sub=1.signed'', token_type = ''bearer'', user_id = 1\<rparr>"
  using login_failure_kinds [where user_data = "\<lparr>login_email = ''eve@x.com'', password = ''1''\<rparr>"
      and db = ex_db and vp = ex_verify_password and cat = ex_create_access_token]
    login_failure_kinds [where user_data = "\<lparr>login_email = ''ana@x.com'', password = ''wrong''\<rparr>"
      and db = ex_db and vp = ex_verify_password and cat = ex_create_access_token
      and u = "\<lparr>usr_id = 1, username = ''ana'', email = ''ana@x.com'', hashed_password = ''h1'',
        is_active = True\<rparr>"]
    login_failure_kinds [where user_data = "\<lparr>login_email = ''bob@x.com'', password = ''2''\<rparr>"
      and db = ex_db and vp = ex_verify_password and cat = ex_create_access_token
      and u = "\<lparr>usr_id = 2, username = ''bob'', email = ''bob@x.com'', hashed_password = ''h2'',
        is_active = False\<rparr>"]
    login_failure_kinds [where user_data = "\<lparr>login_email = ''ana@x.com'', password = ''1''\<rparr>"
      and db = ex_db and vp = ex_verify_password and cat = ex_create_access_token
      and u = "\<lparr>usr_id = 1, username = ''ana'', email = ''ana@x.com'', hashed_password = ''h1'',
        is_active = True\<rparr>"]
  by (simp add: ex_db_def ex_verify_password_def ex_create_access_token_def str_int_1)

subsection \<open>An empty message\<close>

text \<open>
  C8, as stated, fails: a request whose text is empty on a conversation the caller owns
  succeeds, and both the empty user message and the assistant's reply are stored.
\<close>

theorem empty_message_accepted_counterexample:
  "send_message ex_db (\<lambda>p c. Inr ''hello'') ex_clock 1 \<lparr>conversation_id = 1, message = ''''\<rparr> 1
     = (ex_db\<lparr>messages :=
           [\<lparr>msg_id = 1, msg_conversation_id = 1, role = ''user'', content = '''',
             msg_created_at = 20\<rparr>,
            \<lparr>msg_id = 2, msg_conversation_id = 1, role = ''assistant'', content = ''hello'',
             msg_created_at = 21\<rparr>],
          next_message_id := 3,
          conversations :=
            [\<lparr>conv_id = 1, conv_user_id = 1, title = ''trip'', created_at = 10,
              updated_at = 22\<rparr>]\<rparr>,
        Inr \<lparr>assistant_message = ''hello'', message_id = 2\<rparr>)"
  by (simp add: ex_db_def ex_clock_def send_message_def find_conversation_def
      add_message_def generate_response_def set_updated_at_def Let_def)

text \<open>
  C8, amended. \<^verbatim>\<open>send_message\<close> treats an empty text as any other text. When the caller
  does not own the conversation it raises 404 and stores nothing. Otherwise it stores a
  user message with empty content and calls the backend: when the backend fails it raises
  the 500 error and the empty user message stays; when the backend answers, the answer is
  stored after it and returned. Every error of such a request has status 404 or 500.
\<close>

theorem empty_message_is_stored:
  "(let request = \<lparr>conversation_id = body_id, message = ''''\<rparr>;
        user_row = \<lparr>msg_id = next_message_id db, msg_conversation_id = cid, role = ''user'',
                     content = '''', msg_created_at = at_user_message clock\<rparr>
    in (find_conversation db cid uid = None
          \<longrightarrow> send_message db model clock cid request uid
                = (db, Inl (HTTPException 404 ''Conversation not found'')))
       \<and> (find_conversation db cid uid = Some c
            \<and> model (prompt_for db cid request clock) default_config = Inl cause
          \<longrightarrow> snd (send_message db model clock cid request uid)
                = Inl (HTTPException 500
                    (''Error generating response: '' @ ''Error generating response: '' @ cause))
              \<and> messages (fst (send_message db model clock cid request uid))
                = messages db @ [user_row])
       \<and> (find_conversation db cid uid = Some c
            \<and> model (prompt_for db cid request clock) default_config = Inr reply
          \<longrightarrow> snd (send_message db model clock cid request uid)
                = Inr \<lparr>assistant_message = reply, message_id = next_message_id db + 1\<rparr>
              \<and> messages (fst (send_message db model clock cid request uid))
                = messages db
                  @ [user_row,
                     \<lparr>msg_id = next_message_id db + 1, msg_conversation_id = cid,
                      role = ''assistant'', content = reply,
                      msg_created_at = at_assistant_message clock\<rparr>])
       \<and> (isl (snd (send_message db model clock cid request uid))
          \<longrightarrow> status_code (projl (snd (send_message db model clock cid request uid)))
                \<in> {404, 500}))"
proof -
  let ?request = "\<lparr>conversation_id = body_id, message = ''''\<rparr>"
  let ?run = "send_message db model clock cid ?request uid"
  have absent: "?run = (db, Inl (HTTPException 404 ''Conversation not found''))"
    if "find_conversation db cid uid = None"
    using that by (simp add: send_message_def)
  have failed: "snd ?run = Inl (HTTPException 500
                    (''Error generating response: '' @ ''Error generating response: '' @ cause))
              \<and> messages (fst ?run)
                = messages db
                  @ [\<lparr>msg_id = next_message_id db, msg_conversation_id = cid, role = ''user'',
                      content = '''', msg_created_at = at_user_message clock\<rparr>]"
    if "find_conversation db cid uid = Some c"
      and "model (prompt_for db cid ?request clock) default_config = Inl cause"
    for c cause
    using that send_message_generation_failed [of db cid uid c model "?request" clock cause]
    by (simp add: with_user_message_simps user_msg_def)
  have generated: "snd ?run = Inr \<lparr>assistant_message = reply, message_id = next_message_id db + 1\<rparr>
              \<and> messages (fst ?run)
                = messages db
                  @ [\<lparr>msg_id = next_message_id db, msg_conversation_id = cid, role = ''user'',
                      content = '''', msg_created_at = at_user_message clock\<rparr>,
                     \<lparr>msg_id = next_message_id db + 1, msg_conversation_id = cid,
                      role = ''assistant'', content = reply,
                      msg_created_at = at_assistant_message clock\<rparr>]"
    if "find_conversation db cid uid = Some c"
      and "model (prompt_for db cid ?request clock) default_config = Inr reply"
    for c reply
    using that send_message_generated [of db cid uid c model "?request" clock reply]
    by (simp add: set_updated_at_def add_message_def Let_def with_user_message_simps user_msg_def)
  have kinds: "status_code (projl (snd ?run)) \<in> {404, 500}" if err: "isl (snd ?run)"
  proof (cases "find_conversation db cid uid")
    case None
    from absent [OF this] show ?thesis by simp
  next
    case (Some c')
    show ?thesis
    proof (cases "model (prompt_for db cid ?request clock) default_config")
      case (Inl cause')
      from failed [OF Some this] show ?thesis by simp
    next
      case (Inr reply')
      from generated [OF Some this] err show ?thesis by simp
    qed
  qed
  show ?thesis
    unfolding Let_def using absent failed generated kinds by blast
qed

theorem empty_message_is_stored_witness:
  "send_message ex_db (\<lambda>p c. Inr ''hello'') ex_clock 1 \<lparr>conversation_id = 1, message = ''''\<rparr> 2
     = (ex_db, Inl (HTTPException 404 ''Conversation not found''))
   \<and> snd (send_message ex_db (\<lambda>p c. Inl ''quota exceeded'') ex_clock 1
            \<lparr>conversation_id = 1, message = ''''\<rparr> 1)
     = Inl (HTTPException 500
         ''Error generating response: Error generating response: quota exceeded'')
   \<and> messages (fst (send_message ex_db (\<lambda>p c. Inl ''quota exceeded'') ex_clock 1
            \<lparr>conversation_id = 1, message = ''''\<rparr> 1))
     = [\<lparr>msg_id = 1, msg_conversation_id = 1, role = ''user'', content = '''',
         msg_created_at = 20\<rparr>]
   \<and> snd (send_message ex_db (\<lambda>p c. Inr ''hello'') ex_clock 1
            \<lparr>conversation_id = 1, message = ''''\<rparr> 1)
     = Inr \<lparr>assistant_message = ''hello'', message_id = 2\<rparr>
   \<and> messages (fst (send_message ex_db (\<lambda>p c. Inr ''hello'') ex_clock 1
            \<lparr>conversation_id = 1, message = ''''\<rparr> 1))
     = [\<lparr>msg_id = 1, msg_conversation_id = 1, role = ''user'', content = '''',
         msg_created_at = 20\<rparr>,
        \<lparr>msg_id = 2, msg_conversation_id = 1, role = ''assistant'', content = ''hello'',
         msg_created_at = 21\<rparr>]"
proof -
  have found: "find_conversation ex_db 1 1
      = Some \<lparr>conv_id = 1, conv_user_id = 1, title = ''trip'', created_at = 10, updated_at = 10\<rparr>"
    by (simp add: find_conversation_def ex_db_def)
  have other: "find_conversation ex_db 1 2 = None"
    by (simp add: find_conversation_def ex_db_def)
  have n: "next_message_id ex_db = 1" "messages ex_db = []"
    by (simp_all add: ex_db_def)
  from empty_message_is_stored [where db = ex_db and cid = 1 and uid = 2 and body_id = 1
      and model = "\<lambda>p c. Inr ''hello''" and clock = ex_clock]
    empty_message_is_stored [where db = ex_db and cid = 1 and uid = 1 and body_id = 1
      and model = "\<lambda>p c. Inl ''quota exceeded''" and clock = ex_clock
      and cause = "''quota exceeded''"
      and c = "\<lparr>conv_id = 1, conv_user_id = 1, title = ''trip'', created_at = 10, updated_at = 10\<rparr>"]
    empty_message_is_stored [where db = ex_db and cid = 1 and uid = 1 and body_id = 1
      and model = "\<lambda>p c. Inr ''hello''" and clock = ex_clock
      and reply = "''hello''"
      and c = "\<lparr>conv_id = 1, conv_user_id = 1, title = ''trip'', created_at = 10, updated_at = 10\<rparr>"]
    found other
  show ?thesis
    unfolding Let_def by (simp add: n ex_clock_def)
qed

subsection \<open>The prompt and the call of the backend\<close>

lemma format_loop_append:
  "format_loop msgs formatted
     = formatted @ map (\<lambda>msg. capitalize (dict_get msg ''role'' ''user'') @ '': ''
                              @ dict_get msg ''content'' '''') msgs"
  by (induction msgs arbitrary: formatted) (simp_all add: Let_def)

lemma join_Cons: "join sep (x # xs) = x @ concat (map (\<lambda>y. sep @ y) xs)"
  by (induction xs arbitrary: x) simp_all

text \<open>
  C5. For a history of (role, content) pairs, handed over as the dictionaries the route
  builds from the message rows, the prompt is the turns rendered as the capitalised role,
  a colon, a space and the content, joined by newline characters, followed by a newline
  and the cue "Assistant:"; the roles \<open>user\<close> and \<open>assistant\<close> are rendered as "User"
  and "Assistant". Called with its defaults, \<^verbatim>\<open>generate_response\<close> hands the backend
  this prompt with temperature 0.7 and an output cap of 1024 tokens, and returns the
  backend's text unchanged.
\<close>

theorem generate_formats_history:
  "format_messages_for_gemini (map (\<lambda>(r, c). [''role'' \<mapsto> r, ''content'' \<mapsto> c]) history)
     = join [CHR 0x0A] (map (\<lambda>(r, c). capitalize r @ '': '' @ c) history)
       @ [CHR 0x0A] @ ''Assistant:''
   \<and> format_messages_for_gemini
        (map (\<lambda>(r, c). [''role'' \<mapsto> r, ''content'' \<mapsto> c]) ((r0, c0) # history))
     = capitalize r0 @ '': '' @ c0
       @ concat (map (\<lambda>(r, c). [CHR 0x0A] @ capitalize r @ '': '' @ c) history)
       @ [CHR 0x0A] @ ''Assistant:''
   \<and> history_of rows
     = map (\<lambda>(r, c). [''role'' \<mapsto> r, ''content'' \<mapsto> c]) (map (\<lambda>m. (role m, content m)) rows)
   \<and> capitalize ''user'' = ''User'' \<and> capitalize ''assistant'' = ''Assistant''
   \<and> (model (format_messages_for_gemini msgs)
          \<lparr>temperature = 7 / 10, max_output_tokens = 1024\<rparr> = Inr reply
      \<longrightarrow> generate_response model msgs default_temperature None = Inr reply)"
proof -
  let ?dict = "\<lambda>(r, c). [''role'' \<mapsto> r, ''content'' \<mapsto> c]"
  let ?render = "\<lambda>(r, c). capitalize r @ '': '' @ c"
  have lines: "format_loop (map ?dict h) [] = map ?render h" for h :: "(string \<times> string) list"
    by (simp add: format_loop_append dict_get_def split_def)
  have all: "format_messages_for_gemini (map ?dict history)
               = join [CHR 0x0A] (map ?render history) @ [CHR 0x0A] @ ''Assistant:''"
    by (simp only: format_messages_for_gemini_def lines)
  have first: "format_messages_for_gemini (map ?dict ((r0, c0) # history))
               = capitalize r0 @ '': '' @ c0
                 @ concat (map (\<lambda>(r, c). [CHR 0x0A] @ capitalize r @ '': '' @ c) history)
                 @ [CHR 0x0A] @ ''Assistant:''"
    unfolding format_messages_for_gemini_def lines
    by (simp add: join_Cons split_def comp_def del: capitalize.simps)
  have hist: "history_of rows = map ?dict (map (\<lambda>m. (role m, content m)) rows)"
    by (simp add: history_of_def)
  have call: "generate_response model msgs default_temperature None = Inr reply"
    if "model (format_messages_for_gemini msgs)
          \<lparr>temperature = 7 / 10, max_output_tokens = 1024\<rparr> = Inr reply"
    using that
    by (simp add: generate_response_def default_temperature_def max_tokens_or_1024_def)
  show ?thesis
    using all first hist call capitalize_user capitalize_assistant by blast
qed

theorem generate_formats_history_witness:
  "generate_response ex_model
     (map (\<lambda>(r, c). [''role'' \<mapsto> r, ''content'' \<mapsto> c])
        [(''user'', ''hi''), (''assistant'', ''hello''), (''user'', ''more'')])
     default_temperature None
     = Inr (''re: User: hi'' @ [CHR 0x0A] @ ''Assistant: hello'' @ [CHR 0x0A]
            @ ''User: more'' @ [CHR 0x0A] @ ''Assistant:'')"
  using generate_formats_history [where model = ex_model
      and history = "[(''user'', ''hi''), (''assistant'', ''hello''), (''user'', ''more'')]"
      and msgs = "map (\<lambda>(r, c). [''role'' \<mapsto> r, ''content'' \<mapsto> c])
                    [(''user'', ''hi''), (''assistant'', ''hello''), (''user'', ''more'')]"
      and reply = "''re: User: hi'' @ [CHR 0x0A] @ ''Assistant: hello'' @ [CHR 0x0A]
                     @ ''User: more'' @ [CHR 0x0A] @ ''Assistant:''"]
  by (simp add: ex_model_def del: capitalize.simps)

subsection \<open>Tokens\<close>

lemma digit_of_digit_char: "d < 10 \<Longrightarrow> digit_of (digit_char d) = Some d"
  by (simp add: digit_of_def digit_char_def Let_def)

lemma nat_of_digits_snoc:
  "d < 10 \<Longrightarrow> nat_of_digits acc (xs @ [digit_char d])
                = map_option (\<lambda>a. 10 * a + d) (nat_of_digits acc xs)"
  by (induction xs arbitrary: acc) (simp_all add: digit_of_digit_char split: option.split)

lemma digit_of_minus: "digit_of CHR ''-'' = None"
  by (simp add: digit_of_def)

lemma str_nat_small: "n < 10 \<Longrightarrow> str_nat n = [digit_char n]"
  by (subst str_nat.simps) (simp del: str_nat.simps)

lemma str_nat_large:
  "\<not> n < 10 \<Longrightarrow> str_nat n = str_nat (n div 10) @ [digit_char (n mod 10)]"
  by (subst str_nat.simps) (simp del: str_nat.simps)

lemma nat_of_digits_str_nat: "nat_of_digits 0 (str_nat n) = Some n"
proof (induction n rule: str_nat.induct)
  case (1 n)
  show ?case
  proof (cases "n < 10")
    case True
    then show ?thesis
      by (simp add: str_nat_small digit_of_digit_char del: str_nat.simps)
  next
    case False
    with 1 show ?thesis
      by (simp add: str_nat_large nat_of_digits_snoc del: str_nat.simps)
  qed
qed

lemma str_nat_digits: "str_nat n \<noteq> [] \<and> (\<forall>c \<in> set (str_nat n). digit_of c \<noteq> None)"
proof (induction n rule: str_nat.induct)
  case (1 n)
  show ?case
  proof (cases "n < 10")
    case True
    then show ?thesis
      by (simp add: str_nat_small digit_of_digit_char del: str_nat.simps)
  next
    case False
    with 1 show ?thesis
      by (simp add: str_nat_large digit_of_digit_char del: str_nat.simps)
  qed
qed

lemma int_of_str_str_int: "int_of_str (str_int i) = Some i"
proof (cases "i < 0")
  case True
  then show ?thesis
    using str_nat_digits [of "nat (- i)"]
    by (simp add: int_of_str_def str_int_def nat_of_digits_str_nat del: str_nat.simps)
next
  case False
  obtain c cs where s: "str_nat (nat i) = c # cs"
    using str_nat_digits [of "nat i"] by (cases "str_nat (nat i)") auto
  have "c \<noteq> CHR ''-''"
    using str_nat_digits [of "nat i"] s digit_of_minus by auto
  with False s nat_of_digits_str_nat [of "nat i"] show ?thesis
    by (simp add: int_of_str_def str_int_def del: str_nat.simps)
qed

lemma issue_token_fields:
  "issue_token sign secret now uid
     = \<lparr>tok_sub = Some (str_int uid), tok_exp = Some (now + 24 * 60 * 60),
        tok_signature = sign secret (Some (str_int uid), Some (now + 24 * 60 * 60))\<rparr>"
  by (simp add: issue_token_def create_access_token_def ACCESS_TOKEN_EXPIRE_MINUTES_def Let_def)

text \<open>
  C4. A token issued for a user id at time \<open>now\<close> carries the id as its subject and the
  expiry \<open>now\<close> plus 24 hours, under the signature of the secret. For every token,
  verification answers \<open>Invalid\<close> when the signature is not the one of the secret for the
  payload, or when the subject or the expiry is missing or the subject is not a number;
  for a well-formed payload under the right signature it answers \<open>Expired\<close> when the
  expiry is before the time of verification and the subject's user id otherwise. So an
  issued token verifies to its user id up to 24 hours after issue, whatever the id and
  with no database at hand, is \<open>Expired\<close> afterwards, and is \<open>Invalid\<close> under a secret
  that signs its payload differently.
\<close>

theorem token_lifecycle:
  "issue_token sign secret now uid
     = \<lparr>tok_sub = Some (str_int uid), tok_exp = Some (now + 24 * 60 * 60),
        tok_signature = sign secret (Some (str_int uid), Some (now + 24 * 60 * 60))\<rparr>
   \<and> (tok_signature tok \<noteq> sign secret (tok_sub tok, tok_exp tok)
      \<longrightarrow> verify_token sign secret t tok = Inl Invalid)
   \<and> (tok_sub tok = None \<or> tok_exp tok = None
        \<or> (\<exists>s. tok_sub tok = Some s \<and> int_of_str s = None)
      \<longrightarrow> verify_token sign secret t tok = Inl Invalid)
   \<and> (tok_signature tok = sign secret (tok_sub tok, tok_exp tok)
        \<and> tok_sub tok = Some s \<and> int_of_str s = Some uid' \<and> tok_exp tok = Some e \<and> e < t
      \<longrightarrow> verify_token sign secret t tok = Inl Expired)
   \<and> (tok_signature tok = sign secret (tok_sub tok, tok_exp tok)
        \<and> tok_sub tok = Some s \<and> int_of_str s = Some uid' \<and> tok_exp tok = Some e \<and> t \<le> e
      \<longrightarrow> verify_token sign secret t tok = Inr uid')
   \<and> (t \<le> now + 24 * 60 * 60
      \<longrightarrow> verify_token sign secret t (issue_token sign secret now uid) = Inr uid)
   \<and> (now + 24 * 60 * 60 < t
      \<longrightarrow> verify_token sign secret t (issue_token sign secret now uid) = Inl Expired)
   \<and> (sign other (Some (str_int uid), Some (now + 24 * 60 * 60))
          \<noteq> sign secret (Some (str_int uid), Some (now + 24 * 60 * 60))
      \<longrightarrow> verify_token sign other t (issue_token sign secret now uid) = Inl Invalid)"
proof -
  have forged: "verify_token sign secret t tok = Inl Invalid"
    if "tok_signature tok \<noteq> sign secret (tok_sub tok, tok_exp tok)"
    using that by (simp add: verify_token_def)
  have malformed: "verify_token sign secret t tok = Inl Invalid"
    if "tok_sub tok = None \<or> tok_exp tok = None
          \<or> (\<exists>s. tok_sub tok = Some s \<and> int_of_str s = None)"
    using that by (auto simp: verify_token_def split: option.splits)
  have expired: "verify_token sign secret t tok = Inl Expired"
    if "tok_signature tok = sign secret (tok_sub tok, tok_exp tok)" "tok_sub tok = Some s"
      "int_of_str s = Some uid'" "tok_exp tok = Some e" "e < t"
    using that by (simp add: verify_token_def)
  have valid: "verify_token sign secret t tok = Inr uid'"
    if "tok_signature tok = sign secret (tok_sub tok, tok_exp tok)" "tok_sub tok = Some s"
      "int_of_str s = Some uid'" "tok_exp tok = Some e" "t \<le> e"
    using that by (simp add: verify_token_def)
  have fresh: "verify_token sign secret t (issue_token sign secret now uid) = Inr uid"
    if "t \<le> now + 24 * 60 * 60"
    using that by (simp add: issue_token_fields verify_token_def int_of_str_str_int del: str_nat.simps)
  have late: "verify_token sign secret t (issue_token sign secret now uid) = Inl Expired"
    if "now + 24 * 60 * 60 < t"
    using that by (simp add: issue_token_fields verify_token_def int_of_str_str_int del: str_nat.simps)
  have foreign: "verify_token sign other t (issue_token sign secret now uid) = Inl Invalid"
    if "sign other (Some (str_int uid), Some (now + 24 * 60 * 60))
          \<noteq> sign secret (Some (str_int uid), Some (now + 24 * 60 * 60))"
    using that by (simp add: issue_token_fields verify_token_def del: str_nat.simps)
  show ?thesis
    using issue_token_fields [of sign secret now uid] forged malformed expired valid fresh
      late foreign
    by blast
qed

lemma str_int_7: "str_int 7 = ''7''"
  by code_simp

theorem token_lifecycle_witness:
  "verify_token ex_sign ''k'' 87399 (issue_token ex_sign ''k'' 1000 7) = Inr 7
   \<and> verify_token ex_sign ''k'' 87401 (issue_token ex_sign ''k'' 1000 7) = Inl Expired
   \<and> verify_token ex_sign ''other'' 1000 (issue_token ex_sign ''k'' 1000 7) = Inl Invalid
   \<and> verify_token ex_sign ''k'' 1000
        \<lparr>tok_sub = Some ''8'', tok_exp = Some 87400,
         tok_signature = ex_sign ''k'' (Some ''7'', Some 87400)\<rparr> = Inl Invalid
   \<and> verify_token ex_sign ''k'' 1000
        \<lparr>tok_sub = None, tok_exp = Some 87400,
         tok_signature = ex_sign ''k'' (None, Some 87400)\<rparr> = Inl Invalid"
  using token_lifecycle [where sign = ex_sign and secret = "''k''" and now = 1000 and uid = 7
      and t = 87399 and other = "''other''"]
    token_lifecycle [where sign = ex_sign and secret = "''k''" and now = 1000 and uid = 7
      and t = 87401 and other = "''other''"]
    token_lifecycle [where sign = ex_sign and secret = "''k''" and now = 1000 and uid = 7
      and t = 1000 and other = "''other''"
      and tok = "\<lparr>tok_sub = Some ''8'', tok_exp = Some 87400,
                  tok_signature = ex_sign ''k'' (Some ''7'', Some 87400)\<rparr>"]
    token_lifecycle [where sign = ex_sign and secret = "''k''" and now = 1000 and uid = 7
      and t = 1000 and other = "''other''"
      and tok = "\<lparr>tok_sub = None, tok_exp = Some 87400,
                  tok_signature = ex_sign ''k'' (None, Some 87400)\<rparr>"]
  by (simp add: ex_sign_def str_int_7)

end
